theory Spec2Isabelle
  imports Complex_Main "HOL-Library.Multiset"
begin

section \<open>Numbers, errors and tensors\<close>

text \<open>
  The program stores its data in torch tensors. A float entry is a real number, an
  infinity or NaN. In the attribute container its arithmetic is idealised: rounding,
  overflow and the sign of zero are not represented, and integer tensors hold unbounded
  integers. The temporal distributor computes in float32 and casts to 32-bit integers;
  there each operation rounds, with \<open>f32\<close> below. A one-dimensional tensor is a list; a
  two-dimensional tensor is the list of its rows, so the column count of a tensor with no
  rows is not represented.
\<close>

datatype fl = Fin real | PInf | NInf | NaN

definition isnan :: "fl \<Rightarrow> bool" where
  "isnan x = (case x of NaN \<Rightarrow> True | _ \<Rightarrow> False)"

fun fmul :: "fl \<Rightarrow> fl \<Rightarrow> fl" where
  "fmul (Fin x) (Fin y) = Fin (x * y)"
| "fmul NaN _ = NaN"
| "fmul _ NaN = NaN"
| "fmul (Fin x) PInf = (if x = 0 then NaN else if 0 < x then PInf else NInf)"
| "fmul (Fin x) NInf = (if x = 0 then NaN else if 0 < x then NInf else PInf)"
| "fmul PInf (Fin y) = (if y = 0 then NaN else if 0 < y then PInf else NInf)"
| "fmul NInf (Fin y) = (if y = 0 then NaN else if 0 < y then NInf else PInf)"
| "fmul PInf PInf = PInf"
| "fmul PInf NInf = NInf"
| "fmul NInf PInf = NInf"
| "fmul NInf NInf = PInf"

fun fadd :: "fl \<Rightarrow> fl \<Rightarrow> fl" where
  "fadd (Fin x) (Fin y) = Fin (x + y)"
| "fadd NaN _ = NaN"
| "fadd _ NaN = NaN"
| "fadd PInf NInf = NaN"
| "fadd NInf PInf = NaN"
| "fadd PInf _ = PInf"
| "fadd NInf _ = NInf"
| "fadd _ PInf = PInf"
| "fadd _ NInf = NInf"

fun fdiv :: "fl \<Rightarrow> fl \<Rightarrow> fl" where
  "fdiv (Fin x) (Fin y) =
     (if y = 0 then (if x = 0 then NaN else if 0 < x then PInf else NInf) else Fin (x / y))"
| "fdiv NaN _ = NaN"
| "fdiv _ NaN = NaN"
| "fdiv (Fin x) PInf = Fin 0"
| "fdiv (Fin x) NInf = Fin 0"
| "fdiv PInf (Fin y) = (if 0 \<le> y then PInf else NInf)"
| "fdiv NInf (Fin y) = (if 0 \<le> y then NInf else PInf)"
| "fdiv PInf PInf = NaN"
| "fdiv PInf NInf = NaN"
| "fdiv NInf PInf = NaN"
| "fdiv NInf NInf = NaN"

text \<open>\<open>1 / x\<close> on a float.\<close>

definition frecip :: "fl \<Rightarrow> fl" where
  "frecip x = fdiv (Fin 1) x"

text \<open>\<open>a == b\<close> on two float entries: NaN equals nothing.\<close>

definition feq :: "fl \<Rightarrow> fl \<Rightarrow> bool" where
  "feq a b = (\<not> isnan a \<and> \<not> isnan b \<and> a = b)"

text \<open>\<open>|a - b| < prec\<close> on two float entries: false as soon as the difference is NaN or infinite.\<close>

definition fclose :: "real \<Rightarrow> fl \<Rightarrow> fl \<Rightarrow> bool" where
  "fclose prec a b = (case (a, b) of (Fin x, Fin y) \<Rightarrow> \<bar>x - y\<bar> < prec | _ \<Rightarrow> False)"

text \<open>
  Float32. \<open>rne\<close> rounds a real to the nearest integer, a tie to the even one. \<open>f32\<close> rounds
  a real to the nearest float32, a tie to the even mantissa: a float32 is a multiple of
  \<open>2 ^ (e - 23)\<close>, with \<open>e\<close> the exponent of the number and at least -126. A result beyond
  the largest float32 would be an infinity; it is not represented, and neither is the sign
  of zero. \<open>round32\<close> is \<open>f32\<close> on a float entry.
\<close>

definition rne :: "real \<Rightarrow> int" where
  "rne y =
     (let f = \<lfloor>y\<rfloor>; d = y - of_int f in
      if d < 1 / 2 then f else if 1 / 2 < d then f + 1 else if even f then f else f + 1)"

definition pow2 :: "int \<Rightarrow> real" where
  "pow2 k = (if 0 \<le> k then 2 ^ nat k else 1 / 2 ^ nat (- k))"

definition f32 :: "real \<Rightarrow> real" where
  "f32 x =
     (if x = 0 then 0
      else (let e = max \<lfloor>log 2 \<bar>x\<bar>\<rfloor> (- 126); u = pow2 (e - 23) in of_int (rne (x / u)) * u))"

fun round32 :: "fl \<Rightarrow> fl" where
  "round32 (Fin x) = Fin (f32 x)"
| "round32 v = v"

text \<open>
  The casts \<open>.int()\<close> and \<open>.type(torch.LongTensor)\<close> of a float: the fraction is dropped, and
  a value outside the range of the integer type gives the smallest integer of the type,
  as the conversion instruction of the processor does.
\<close>

definition trunc :: "real \<Rightarrow> int" where
  "trunc v = (if 0 \<le> v then \<lfloor>v\<rfloor> else \<lceil>v\<rceil>)"

definition to_int32 :: "real \<Rightarrow> int" where
  "to_int32 v =
     (let t = trunc v in if - 2147483648 \<le> t \<and> t < 2147483648 then t else - 2147483648)"

definition to_int64 :: "real \<Rightarrow> int" where
  "to_int64 v =
     (let t = trunc v in
      if - 9223372036854775808 \<le> t \<and> t < 9223372036854775808 then t
      else - 9223372036854775808)"

text \<open>
  The exceptions the program raises. \<open>IndexError i n\<close> is an IndexError whose message
  names the index \<open>i\<close> and the size \<open>n\<close>: the one \<open>__getitem__\<close> raises itself, and
  torch's "index i is out of bounds for dimension 0 with size n". \<open>IndexErrorOfSize n\<close> is
  torch's IndexError "index is out of bounds for dimension with size n", which names no
  index.
\<close>

datatype error =
    ValueError string
  | IndexError int nat
  | IndexErrorOfSize nat
  | RuntimeError
  | AttributeError
  | DeprecationWarning

datatype warning = UserWarning string

text \<open>Sequencing of fallible steps: the first exception ends the computation.\<close>

definition bnd :: "error + 'a \<Rightarrow> ('a \<Rightarrow> error + 'b) \<Rightarrow> error + 'b" where
  "bnd m f = (case m of Inl e \<Rightarrow> Inl e | Inr v \<Rightarrow> f v)"

text \<open>
  Reading one entry of a tensor of \<open>n\<close> rows with an integer, \<open>t[i]\<close>: a negative index
  counts from the end, and an index outside \<open>[-n, n)\<close> raises an IndexError that carries
  the index and the size.
\<close>

definition get_row :: "'a list \<Rightarrow> int \<Rightarrow> error + 'a" where
  "get_row xs i =
     (if 0 \<le> i \<and> i < int (length xs) then Inr (xs ! nat i)
      else if i < 0 \<and> - int (length xs) \<le> i then Inr (xs ! nat (int (length xs) + i))
      else Inl (IndexError i (length xs)))"

text \<open>
  Indexing with a list or a tensor of integers, \<open>xs[ix]\<close>. Torch checks a tensor that
  has no rows first: any index into it raises the IndexError that names the size only.
  On a tensor with rows an index outside \<open>[-n, n)\<close> raises the IndexError that names it.
\<close>

definition pick_row :: "'a list \<Rightarrow> int \<Rightarrow> error + 'a" where
  "pick_row xs i = (if xs = [] then Inl (IndexErrorOfSize 0) else get_row xs i)"

fun index_rows :: "'a list \<Rightarrow> int list \<Rightarrow> error + 'a list" where
  "index_rows xs [] = Inr []"
| "index_rows xs (i # ix) =
     bnd (pick_row xs i) (\<lambda>v. bnd (index_rows xs ix) (\<lambda>vs. Inr (v # vs)))"

text \<open>Indexing with a boolean mask: \<open>xs[mask]\<close>; the mask must have the tensor's length.\<close>

definition mask_rows :: "'a list \<Rightarrow> bool list \<Rightarrow> error + 'a list" where
  "mask_rows xs msk =
     (if length msk \<noteq> length xs then Inl (IndexError (int (length msk)) (length xs))
      else Inr (map fst (filter snd (zip xs msk))))"

text \<open>
  Modelled from the spec: \<open>tutil.tens_almeq\<close>, which is not among the source files. The
  spec calls two tensors equal when they are "element-wise close within a fixed absolute
  tolerance": the same shape, and every pair of entries closer than the tolerance.
\<close>

definition tens_almeq :: "fl list \<Rightarrow> fl list \<Rightarrow> real \<Rightarrow> bool" where
  "tens_almeq a b prec = list_all2 (fclose prec) a b"

definition tens_almeq_int :: "int list \<Rightarrow> int list \<Rightarrow> real \<Rightarrow> bool" where
  "tens_almeq_int a b prec = list_all2 (\<lambda>x y. \<bar>real_of_int x - real_of_int y\<bar> < prec) a b"

definition tens_almeq2 :: "fl list list \<Rightarrow> fl list list \<Rightarrow> real \<Rightarrow> bool" where
  "tens_almeq2 a b prec = list_all2 (list_all2 (fclose prec)) a b"

text \<open>
  Modelled from the spec: \<open>tutil.same_shape_tensor\<close> and \<open>tutil.same_dim_tensor\<close>, which
  are not among the source files. The first takes the sizes of its tensors in the given
  dimension and says whether they agree ("all N-length attributes share identical leading
  dimension"); the second takes their numbers of dimensions and says whether they agree.
\<close>

definition same_shape_tensor :: "nat list \<Rightarrow> bool" where
  "same_shape_tensor sizes = (case sizes of [] \<Rightarrow> True | s # ss \<Rightarrow> list_all (\<lambda>t. t = s) ss)"

definition same_dim_tensor :: "nat list \<Rightarrow> bool" where
  "same_dim_tensor dims = (case dims of [] \<Rightarrow> True | d # ds \<Rightarrow> list_all (\<lambda>t. t = d) ds)"

text \<open>\<open>torch.isnan(t).all()\<close> on a one- and on a two-dimensional tensor.\<close>

definition all_nan :: "fl list \<Rightarrow> bool" where
  "all_nan t = list_all isnan t"

definition all_nan2 :: "fl list list \<Rightarrow> bool" where
  "all_nan2 t = list_all (list_all isnan) t"


section \<open>The attribute container\<close>

text \<open>
  \<open>EmitterSet\<close> of \<open>emitter.py\<close>. The field \<open>id\<close> is \<open>id_em\<close> and \<open>_sorted\<close> is \<open>sorted_em\<close>.
  An unset unit or pixel size is \<open>None\<close>. The element types fix what the dtype checks of
  \<open>_set_typed\<close> ask for: positions are floats, frame indices and identities are integers
  of one width.
\<close>

record EmitterSet =
  xyz :: "fl list list"
  phot :: "fl list"
  frame_ix :: "int list"
  id_em :: "int list"
  prob :: "fl list"
  bg :: "fl list"
  xyz_cr :: "fl list list"
  phot_cr :: "fl list"
  bg_cr :: "fl list"
  xy_unit :: "string option"
  px_size :: "fl list option"
  sorted_em :: bool

definition eq_precision :: real where
  "eq_precision = 1 / 10 ^ 8"

definition xy_units :: "string list" where
  "xy_units = [''px'', ''nm'']"

text \<open>\<open>__len__\<close>: the number of rows of \<open>xyz\<close>.\<close>

definition len :: "EmitterSet \<Rightarrow> nat" where
  "len self = length (xyz self)"

text \<open>
  The padding step of \<open>_set_typed\<close>: a position tensor whose column count is not 3 gets
  one column of zeros appended.
\<close>

definition pad_xyz :: "fl list list \<Rightarrow> fl list list" where
  "pad_xyz t = (case t of [] \<Rightarrow> [] | r # _ \<Rightarrow> if length r = 3 then t else map (\<lambda>q. q @ [Fin 0]) t)"

text \<open>
  \<open>_set_typed\<close>: the nine tensors, with the defaults for the optional ones. With no rows
  in \<open>xyz\<close> every tensor becomes the empty one, whatever was passed. Unit, pixel size
  and the sorted flag are assigned by \<open>__init__\<close> afterwards.
\<close>

definition set_typed ::
  "fl list list \<Rightarrow> fl list \<Rightarrow> int list \<Rightarrow> int list option \<Rightarrow> fl list option \<Rightarrow>
   fl list option \<Rightarrow> fl list list option \<Rightarrow> fl list option \<Rightarrow> fl list option \<Rightarrow> EmitterSet" where
  "set_typed xyz0 phot0 frame_ix0 id0 prob0 bg0 xyz_cr0 phot_cr0 bg_cr0 =
     (let xyz1 = pad_xyz xyz0; num_input = length xyz1 in
      if num_input \<noteq> 0 then
        (let bg1 = (case bg0 of Some b \<Rightarrow> b | None \<Rightarrow> replicate (length frame_ix0) NaN) in
         \<lparr> xyz = xyz1, phot = phot0, frame_ix = frame_ix0,
           id_em = (case id0 of Some i \<Rightarrow> i | None \<Rightarrow> replicate (length frame_ix0) (- 1)),
           prob = (case prob0 of Some p \<Rightarrow> p | None \<Rightarrow> replicate (length frame_ix0) (Fin 1)),
           bg = bg1,
           xyz_cr = (case xyz_cr0 of Some c \<Rightarrow> c | None \<Rightarrow> map (map (\<lambda>_. NaN)) xyz1),
           phot_cr = (case phot_cr0 of Some c \<Rightarrow> c | None \<Rightarrow> replicate (length phot0) NaN),
           bg_cr = (case bg_cr0 of Some c \<Rightarrow> c | None \<Rightarrow> replicate (length bg1) NaN),
           xy_unit = None, px_size = None, sorted_em = False \<rparr>)
      else
        \<lparr> xyz = [], phot = [], frame_ix = [], id_em = [], prob = [], bg = [],
          xyz_cr = [], phot_cr = [], bg_cr = [],
          xy_unit = None, px_size = None, sorted_em = False \<rparr>)"

text \<open>
  \<open>_sanity_check\<close>: \<open>Inl\<close> is the ValueError raised, \<open>Inr\<close> the warnings emitted before
  it returns True. The tensors of the first test are those the source lists: \<open>prob\<close> is
  not among them. The tensors of the second test are one-dimensional by their type.
\<close>

definition sanity_check :: "EmitterSet \<Rightarrow> bool \<Rightarrow> error + warning list" where
  "sanity_check self check_uniqueness =
     (if \<not> same_shape_tensor [length (xyz self), length (phot self), length (frame_ix self),
            length (id_em self), length (bg self), length (xyz_cr self), length (phot_cr self),
            length (bg_cr self)]
      then Inl (ValueError ''Coordinates, photons, frame ix, id and prob are not of equal shape in 0th dimension.'')
      else if \<not> same_dim_tensor [1, 1, 1, 1, 1]
      then Inl (ValueError ''Expected photons, probability frame index and id to be 1D.'')
      else if len self > 0 \<and> (case xy_unit self of None \<Rightarrow> False | Some u \<Rightarrow> u \<notin> set xy_units)
      then Inl (ValueError ''XY unit not supported.'')
      else if check_uniqueness \<and> \<not> distinct (id_em self)
      then Inl (ValueError ''IDs are not unique.'')
      else Inr (if len self > 0 \<and> xy_unit self = None
                then [UserWarning ''No xyz unit specified. No guarantees given ...''] else []))"

text \<open>
  \<open>__init__\<close>. \<open>tutil.at_least_one_dim\<close> turns a zero-dimensional tensor into a
  one-dimensional one; a list is never zero-dimensional, so the call changes nothing here.
  A pixel size that is not a tensor becomes the tensor of the same entries.
\<close>

definition EmitterSet_init ::
  "fl list list \<Rightarrow> fl list \<Rightarrow> int list \<Rightarrow> int list option \<Rightarrow> fl list option \<Rightarrow>
   fl list option \<Rightarrow> fl list list option \<Rightarrow> fl list option \<Rightarrow> fl list option \<Rightarrow>
   bool \<Rightarrow> string option \<Rightarrow> fl list option \<Rightarrow> error + warning list \<times> EmitterSet" where
  "EmitterSet_init xyz0 phot0 frame_ix0 id0 prob0 bg0 xyz_cr0 phot_cr0 bg_cr0 sanity unit0 px0 =
     (let self = (set_typed xyz0 phot0 frame_ix0 id0 prob0 bg0 xyz_cr0 phot_cr0 bg_cr0)
                   \<lparr> sorted_em := False, xy_unit := unit0, px_size := px0 \<rparr>
      in if sanity then bnd (sanity_check self False) (\<lambda>ws. Inr (ws, self))
         else Inr ([], self))"

subsection \<open>Equality\<close>

text \<open>
  \<open>(self.px_size == other.px_size).all()\<close> with \<open>self.px_size\<close> a tensor. Compared with
  None a tensor gives the plain boolean False, which has no method \<open>all\<close>; two tensors
  are compared entry by entry after broadcasting, which fails when the sizes differ and
  neither is 1.
\<close>

definition px_size_eq_all :: "fl list \<Rightarrow> fl list option \<Rightarrow> error + bool" where
  "px_size_eq_all p qo =
     (case qo of
        None \<Rightarrow> Inl AttributeError
      | Some q \<Rightarrow>
          if length p = length q then Inr (list_all2 feq p q)
          else if length p = 1 then Inr (list_all (feq (hd p)) q)
          else if length q = 1 then Inr (list_all (\<lambda>x. feq x (hd q)) p)
          else Inl RuntimeError)"

definition eq_attr :: "EmitterSet \<Rightarrow> EmitterSet \<Rightarrow> error + bool" where
  "eq_attr self other =
     (case px_size self of
        None \<Rightarrow> (case px_size other of None \<Rightarrow> Inr True | Some _ \<Rightarrow> Inr False)
      | Some p \<Rightarrow>
          bnd (px_size_eq_all p (px_size other)) (\<lambda>same.
            if \<not> same then Inr False
            else if \<not> (xy_unit self = xy_unit other) then Inr False
            else Inr True))"

text \<open>\<open>__eq__\<close>. The three uncertainty fields compare \<open>bg\<close> in their else branch, as the source does.\<close>

definition EmitterSet_eq :: "EmitterSet \<Rightarrow> EmitterSet \<Rightarrow> error + bool" where
  "EmitterSet_eq self other =
     (if \<not> tens_almeq2 (xyz self) (xyz other) eq_precision then Inr False
      else if \<not> tens_almeq_int (frame_ix self) (frame_ix other) eq_precision then Inr False
      else if \<not> tens_almeq (phot self) (phot other) eq_precision then Inr False
      else if \<not> tens_almeq (prob self) (prob other) eq_precision then Inr False
      else if \<not> (xy_unit self = xy_unit other) then Inr False
      else if (if all_nan (bg self) then \<not> all_nan (bg other)
               else \<not> tens_almeq (bg self) (bg other) eq_precision) then Inr False
      else if (if all_nan2 (xyz_cr self) then \<not> all_nan2 (xyz_cr other)
               else \<not> tens_almeq (bg self) (bg other) eq_precision) then Inr False
      else if (if all_nan (phot_cr self) then \<not> all_nan (phot_cr other)
               else \<not> tens_almeq (bg self) (bg other) eq_precision) then Inr False
      else if (if all_nan (bg_cr self) then \<not> all_nan (bg_cr other)
               else \<not> tens_almeq (bg self) (bg other) eq_precision) then Inr False
      else bnd (eq_attr self other) (\<lambda>_. Inr True))"


subsection \<open>Subsets\<close>

text \<open>
  What a caller can index with: one Python integer, a list of integers, a tensor of
  integers, or a boolean tensor (a mask).
\<close>

datatype index = IntIx int | ListIx "int list" | TensorIx "int list" | MaskIx "bool list"

text \<open>
  The first lines of \<open>get_subset\<close>: an integer becomes a one-element list, and so does a
  tensor with exactly one element, through \<open>int(ix)\<close>, which reads True as 1 and False as 0.
\<close>

definition single_element :: "index \<Rightarrow> index" where
  "single_element ix =
     (case ix of
        IntIx i \<Rightarrow> ListIx [i]
      | TensorIx [i] \<Rightarrow> ListIx [i]
      | MaskIx [b] \<Rightarrow> ListIx [if b then 1 else 0]
      | _ \<Rightarrow> ix)"

definition take_ix :: "'a list \<Rightarrow> index \<Rightarrow> error + 'a list" where
  "take_ix xs ix =
     (case ix of
        IntIx i \<Rightarrow> index_rows xs [i]
      | ListIx js \<Rightarrow> index_rows xs js
      | TensorIx js \<Rightarrow> index_rows xs js
      | MaskIx m \<Rightarrow> mask_rows xs m)"

definition get_subset :: "EmitterSet \<Rightarrow> index \<Rightarrow> error + EmitterSet" where
  "get_subset self ix0 =
     (let ix = single_element ix0 in
      bnd (take_ix (xyz self) ix) (\<lambda>xyz1.
      bnd (take_ix (phot self) ix) (\<lambda>phot1.
      bnd (take_ix (frame_ix self) ix) (\<lambda>frame1.
      bnd (take_ix (id_em self) ix) (\<lambda>id1.
      bnd (take_ix (prob self) ix) (\<lambda>prob1.
      bnd (take_ix (bg self) ix) (\<lambda>bg1.
      bnd (take_ix (xyz_cr self) ix) (\<lambda>xyz_cr1.
      bnd (take_ix (phot_cr self) ix) (\<lambda>phot_cr1.
      bnd (take_ix (bg_cr self) ix) (\<lambda>bg_cr1.
      bnd (EmitterSet_init xyz1 phot1 frame1 (Some id1) (Some prob1) (Some bg1) (Some xyz_cr1)
             (Some phot_cr1) (Some bg_cr1) False (xy_unit self) (px_size self))
        (\<lambda>(ws, em). Inr em)))))))))))"

text \<open>\<open>__getitem__\<close>.\<close>

definition getitem :: "EmitterSet \<Rightarrow> index \<Rightarrow> error + EmitterSet" where
  "getitem self item =
     (case item of
        IntIx i \<Rightarrow> if i \<ge> int (len self) then Inl (IndexError i (len self)) else get_subset self item
      | _ \<Rightarrow> get_subset self item)"

text \<open>The property \<open>num_emitter\<close>: reading it raises.\<close>

definition num_emitter :: "EmitterSet \<Rightarrow> error + nat" where
  "num_emitter self = Inl DeprecationWarning"

text \<open>\<open>get_subset_frame\<close>; \<open>shift_to\<close> is None or an integer, and truthy when it is not 0.\<close>

definition get_subset_frame :: "EmitterSet \<Rightarrow> int \<Rightarrow> int \<Rightarrow> int option \<Rightarrow> error + EmitterSet" where
  "get_subset_frame self frame_start frame_end shift_to =
     (let ix = map (\<lambda>f. f \<ge> frame_start \<and> f \<le> frame_end) (frame_ix self) in
      bnd (getitem self (MaskIx ix)) (\<lambda>em.
        if \<not> (case shift_to of None \<Rightarrow> False | Some v \<Rightarrow> v \<noteq> 0) then Inr em
        else bnd (num_emitter em) (\<lambda>n.
          if n \<noteq> 0 then Inl (ValueError []) else Inr em)))"

subsection \<open>Copy, concatenation, sorting\<close>

definition clone :: "EmitterSet \<Rightarrow> error + EmitterSet" where
  "clone self =
     bnd (EmitterSet_init (xyz self) (phot self) (frame_ix self) (Some (id_em self))
            (Some (prob self)) (Some (bg self)) (Some (xyz_cr self)) (Some (phot_cr self))
            (Some (bg_cr self)) False (xy_unit self) (px_size self))
       (\<lambda>(ws, em). Inr em)"

text \<open>
  \<open>torch.cat\<close> along the first dimension: it refuses an empty list of tensors, and
  two-dimensional tensors must agree in their column count.
\<close>

definition is_mat :: "'a list list \<Rightarrow> bool" where
  "is_mat t = (case t of [] \<Rightarrow> True | r # rs \<Rightarrow> list_all (\<lambda>q. length q = length r) rs)"

definition torch_cat :: "'a list list \<Rightarrow> error + 'a list" where
  "torch_cat ts = (if ts = [] then Inl RuntimeError else Inr (concat ts))"

definition torch_cat2 :: "'a list list list \<Rightarrow> error + 'a list list" where
  "torch_cat2 ts =
     (if ts = [] then Inl RuntimeError
      else if is_mat (concat ts) then Inr (concat ts) else Inl RuntimeError)"

text \<open>The list comprehension \<open>[emittersets[i].frame_ix + shift[i] for i in range(n)]\<close>.\<close>

fun shifted_frames :: "EmitterSet list \<Rightarrow> int list \<Rightarrow> nat list \<Rightarrow> error + int list list" where
  "shifted_frames ems shift [] = Inr []"
| "shifted_frames ems shift (i # rest) =
     bnd (get_row shift (int i)) (\<lambda>s.
     bnd (shifted_frames ems shift rest) (\<lambda>fs.
       Inr (map (\<lambda>f. f + s) (frame_ix (ems ! i)) # fs)))"

text \<open>The first value of a list of optional values that is set.\<close>

fun first_set :: "'a option list \<Rightarrow> 'a option" where
  "first_set [] = None"
| "first_set (None # xs) = first_set xs"
| "first_set (Some v # xs) = Some v"

definition cat ::
  "EmitterSet list \<Rightarrow> int list option \<Rightarrow> int option \<Rightarrow> error + warning list \<times> EmitterSet" where
  "cat emittersets remap_frame_ix step_frame_ix =
     (let num_emittersets = length emittersets in
      if remap_frame_ix \<noteq> None \<and> step_frame_ix \<noteq> None
      then Inl (ValueError ''You cannot specify remap frame ix and step frame ix at the same time.'')
      else
        (let shift =
           (case remap_frame_ix of
              Some r \<Rightarrow> r
            | None \<Rightarrow>
                (case step_frame_ix of
                   Some st \<Rightarrow> map (\<lambda>i. int i * st) [0..<num_emittersets]
                 | None \<Rightarrow> replicate num_emittersets 0))
         in
         bnd (torch_cat2 (map xyz emittersets)) (\<lambda>xyz1.
         bnd (torch_cat (map phot emittersets)) (\<lambda>phot1.
         bnd (shifted_frames emittersets shift [0..<num_emittersets]) (\<lambda>fs.
         bnd (torch_cat fs) (\<lambda>frame1.
         bnd (torch_cat (map id_em emittersets)) (\<lambda>id1.
         bnd (torch_cat (map prob emittersets)) (\<lambda>prob1.
         bnd (torch_cat (map bg emittersets)) (\<lambda>bg1.
         bnd (torch_cat2 (map xyz_cr emittersets)) (\<lambda>xyz_cr1.
         bnd (torch_cat (map phot_cr emittersets)) (\<lambda>phot_cr1.
         bnd (torch_cat (map bg_cr emittersets)) (\<lambda>bg_cr1.
           EmitterSet_init xyz1 phot1 frame1 (Some id1) (Some prob1) (Some bg1) (Some xyz_cr1)
             (Some phot_cr1) (Some bg_cr1) True
             (first_set (map xy_unit emittersets)) (first_set (map px_size emittersets))))))))))))))"

text \<open>
  \<open>sort_by_frame_\<close>. \<open>Tensor.sort()\<close> is torch's; it is a parameter here, a function
  from the values to the sorted values and the indices that sort them. What torch
  promises of it is \<open>sort_contract\<close>: the indices are a permutation of the positions, the
  values are the input read at the indices, and they ascend. Called without
  \<open>stable=True\<close>, it promises no order among equal values.
\<close>

definition sort_contract :: "(int list \<Rightarrow> int list \<times> nat list) \<Rightarrow> bool" where
  "sort_contract torch_sort =
     (\<forall>xs. mset (snd (torch_sort xs)) = mset [0..<length xs]
         \<and> fst (torch_sort xs) = map (\<lambda>i. xs ! i) (snd (torch_sort xs))
         \<and> sorted (fst (torch_sort xs)))"

definition sort_by_frame_inplace ::
  "(int list \<Rightarrow> int list \<times> nat list) \<Rightarrow> EmitterSet \<Rightarrow> error + EmitterSet" where
  "sort_by_frame_inplace torch_sort self =
     (let (frame1, ixn) = torch_sort (frame_ix self); ix = map int ixn in
      bnd (index_rows (xyz self) ix) (\<lambda>xyz1.
      bnd (index_rows (phot self) ix) (\<lambda>phot1.
      bnd (index_rows (id_em self) ix) (\<lambda>id1.
      bnd (index_rows (prob self) ix) (\<lambda>prob1.
      bnd (index_rows (bg self) ix) (\<lambda>bg1.
      bnd (index_rows (xyz_cr self) ix) (\<lambda>xyz_cr1.
      bnd (index_rows (phot_cr self) ix) (\<lambda>phot_cr1.
      bnd (index_rows (bg_cr self) ix) (\<lambda>bg_cr1.
        Inr (self \<lparr> frame_ix := frame1, xyz := xyz1, phot := phot1, id_em := id1,
                    prob := prob1, bg := bg1, xyz_cr := xyz_cr1, phot_cr := phot_cr1,
                    bg_cr := bg_cr1, sorted_em := True \<rparr>))))))))))"

definition sort_by_frame ::
  "(int list \<Rightarrow> int list \<times> nat list) \<Rightarrow> EmitterSet \<Rightarrow> error + EmitterSet" where
  "sort_by_frame torch_sort self = bnd (clone self) (sort_by_frame_inplace torch_sort)"


subsection \<open>Coordinates and units\<close>

text \<open>
  An operation between a row of the tensor and a vector put in front of it with
  \<open>unsqueeze(0)\<close>, under torch's broadcasting: sizes must agree or one of them be 1.
\<close>

definition broadcast2 :: "('a \<Rightarrow> 'b \<Rightarrow> 'c) \<Rightarrow> 'a list \<Rightarrow> 'b list \<Rightarrow> error + 'c list" where
  "broadcast2 f a b =
     (if length a = length b then Inr (map2 f a b)
      else if length b = 1 then Inr (map (\<lambda>x. f x (hd b)) a)
      else if length a = 1 then Inr (map (f (hd a)) b)
      else Inl RuntimeError)"

text \<open>The same on every row; the in-place form \<open>xyz += v\<close> cannot widen the rows.\<close>

fun each_row :: "('a \<Rightarrow> error + 'b) \<Rightarrow> 'a list \<Rightarrow> error + 'b list" where
  "each_row f [] = Inr []"
| "each_row f (r # rs) = bnd (f r) (\<lambda>v. bnd (each_row f rs) (\<lambda>vs. Inr (v # vs)))"

definition add_inplace :: "fl list \<Rightarrow> fl list \<Rightarrow> error + fl list" where
  "add_inplace r v =
     (if length r = length v then Inr (map2 fadd r v)
      else if length v = 1 then Inr (map (\<lambda>x. fadd x (hd v)) r)
      else Inl RuntimeError)"

text \<open>\<open>_convert_coordinates\<close>: factor, then shift, then the selection of columns.\<close>

definition convert_coordinates ::
  "EmitterSet \<Rightarrow> fl list option \<Rightarrow> fl list option \<Rightarrow> int list option \<Rightarrow> error + fl list list" where
  "convert_coordinates self factor shift axis =
     bnd (case factor of
            None \<Rightarrow> Inr (xyz self)
          | Some f0 \<Rightarrow>
              (let f = (if length f0 = 2 then f0 @ [Fin 1] else f0)
               in each_row (\<lambda>r. broadcast2 fmul r f) (xyz self))) (\<lambda>xyz1.
     bnd (case shift of
            None \<Rightarrow> Inr xyz1
          | Some sh \<Rightarrow> each_row (\<lambda>r. add_inplace r sh) xyz1) (\<lambda>xyz2.
     (case axis of
        None \<Rightarrow> Inr xyz2
      | Some ax \<Rightarrow> each_row (\<lambda>r. index_rows r ax) xyz2)))"



text \<open>\<open>convert_em\<close>: a clone whose attributes are then assigned directly.\<close>

definition convert_em ::
  "EmitterSet \<Rightarrow> fl list option \<Rightarrow> fl list option \<Rightarrow> int list option \<Rightarrow> int option \<Rightarrow>
   string option \<Rightarrow> error + EmitterSet" where
  "convert_em self factor shift axis frame_shift new_xy_unit =
     bnd (clone self) (\<lambda>emn.
     bnd (convert_coordinates emn factor shift axis) (\<lambda>xyz1.
       (let emn1 = emn \<lparr> xyz := xyz1 \<rparr>;
            emn2 = (case frame_shift of
                      None \<Rightarrow> emn1
                    | Some d \<Rightarrow> emn1 \<lparr> frame_ix := map (\<lambda>f. f + d) (frame_ix emn1) \<rparr>);
            emn3 = (case new_xy_unit of
                      None \<Rightarrow> emn2
                    | Some u \<Rightarrow> emn2 \<lparr> xy_unit := Some u \<rparr>)
        in Inr emn3)))"

section \<open>The temporal distributor\<close>

text \<open>
  \<open>LooseEmitterSet\<close>. Its float tensors are float32, torch's default; start times and
  on-times are finite, so they are reals. Identities are integers. The fields \<open>xyz\<close>, \<open>id\<close>
  and \<open>xy_unit\<close> are \<open>l_xyz\<close>, \<open>l_id\<close> and \<open>l_xy_unit\<close>.
\<close>

record LooseEmitterSet =
  l_xyz :: "fl list list"
  intensity :: "fl list"
  l_id :: "int list"
  t0 :: "real list"
  ontime :: "real list"
  l_xy_unit :: "string option"

definition LooseEmitterSet_init ::
  "fl list list \<Rightarrow> fl list \<Rightarrow> real list \<Rightarrow> real list \<Rightarrow> int list option \<Rightarrow> string option
   \<Rightarrow> LooseEmitterSet" where
  "LooseEmitterSet_init xyz0 intensity0 ontime0 t00 id0 unit0 =
     \<lparr> l_xyz = xyz0, intensity = intensity0,
       l_id = (case id0 of None \<Rightarrow> map int [0..<length xyz0] | Some i \<Rightarrow> i),
       t0 = t00, ontime = ontime0, l_xy_unit = unit0 \<rparr>"

text \<open>The property \<open>te\<close>: the float32 sum \<open>t0 + ontime\<close>.\<close>

definition te :: "LooseEmitterSet \<Rightarrow> error + real list" where
  "te self = broadcast2 (\<lambda>a b. f32 (a + b)) (t0 self) (ontime self)"

text \<open>
  The four output tensors of \<open>_distribute_framewise\<close> and the row counter \<open>c\<close>. All four
  are float32 tensors, made by \<open>torch.zeros\<close> and \<open>torch.zeros_like\<close>: frame indices and
  identities are stored as floats.
\<close>

record buffers =
  xyz_b :: "fl list list"
  phot_b :: "fl list"
  frame_ix_b :: "real list"
  id_b :: "real list"
  c_b :: nat

text \<open>\<open>t[c] = v\<close>: an IndexError outside the tensor.\<close>

definition set_row :: "'a list \<Rightarrow> nat \<Rightarrow> 'a \<Rightarrow> error + 'a list" where
  "set_row xs c v = (if c < length xs then Inr (xs[c := v]) else Inl (IndexError (int c) (length xs)))"

text \<open>
  The body of the inner loop, for emitter \<open>i\<close> and its \<open>j\<close>-th frame. Every value written
  to a buffer is rounded to float32, the identity included; the sums \<open>frame_start[i] + j\<close>
  and \<open>frame_ix_[c] + 1\<close>, the difference of the minimum and the maximum, and the product
  with the intensity are float32 operations.
\<close>

definition write_row ::
  "LooseEmitterSet \<Rightarrow> real list \<Rightarrow> real list \<Rightarrow> nat \<Rightarrow> nat \<Rightarrow> buffers \<Rightarrow> error + buffers" where
  "write_row self tes frame_start i j b =
     (let c = c_b b in
      bnd (get_row (l_xyz self) (int i)) (\<lambda>x.
      bnd (set_row (xyz_b b) c (map round32 x)) (\<lambda>xyz1.
      bnd (get_row frame_start (int i)) (\<lambda>fs.
      bnd (set_row (frame_ix_b b) c (f32 (fs + f32 (real j)))) (\<lambda>frame1.
      bnd (get_row (l_id self) (int i)) (\<lambda>idv.
      bnd (set_row (id_b b) c (f32 (real_of_int idv))) (\<lambda>id1.
      bnd (get_row tes (int i)) (\<lambda>tei.
      bnd (get_row frame1 (int c)) (\<lambda>f.
      bnd (get_row (t0 self) (int i)) (\<lambda>t0i.
        (let ontime_on_frame = f32 (min tei (f32 (f + 1)) - max t0i f) in
         bnd (get_row (intensity self) (int i)) (\<lambda>inten.
         bnd (set_row (phot_b b) c (round32 (fmul (Fin ontime_on_frame) inten))) (\<lambda>phot1.
           Inr \<lparr> xyz_b = xyz1, phot_b = phot1, frame_ix_b = frame1, id_b = id1,
                 c_b = c + 1 \<rparr>)))))))))))))"

fun loop_frames ::
  "LooseEmitterSet \<Rightarrow> real list \<Rightarrow> real list \<Rightarrow> nat \<Rightarrow> nat list \<Rightarrow> buffers \<Rightarrow> error + buffers" where
  "loop_frames self tes frame_start i [] b = Inr b"
| "loop_frames self tes frame_start i (j # js) b =
     bnd (write_row self tes frame_start i j b) (loop_frames self tes frame_start i js)"

fun loop_emitters ::
  "LooseEmitterSet \<Rightarrow> real list \<Rightarrow> real list \<Rightarrow> int list \<Rightarrow> nat list \<Rightarrow> buffers
   \<Rightarrow> error + buffers" where
  "loop_emitters self tes frame_start frame_dur [] b = Inr b"
| "loop_emitters self tes frame_start frame_dur (i # rest) b =
     bnd (get_row frame_dur (int i)) (\<lambda>d.
     bnd (loop_frames self tes frame_start i [0..<nat d] b)
       (loop_emitters self tes frame_start frame_dur rest))"

text \<open>
  \<open>_distribute_framewise\<close>. \<open>torch.floor\<close> and \<open>torch.ceil\<close> give floats; their
  difference is a float32 operation, cast to 64-bit integers. \<open>torch.zeros\<close> refuses a
  negative number of rows. The column count of the output is that of \<open>self.xyz\<close>.
\<close>

definition distribute_framewise ::
  "LooseEmitterSet \<Rightarrow> error + fl list list \<times> fl list \<times> real list \<times> real list" where
  "distribute_framewise self =
     bnd (te self) (\<lambda>tes.
       (let frame_start = map (\<lambda>t. real_of_int \<lfloor>t\<rfloor>) (t0 self);
            frame_last = map (\<lambda>t. real_of_int \<lceil>t\<rceil>) tes in
        bnd (broadcast2 (\<lambda>a b. to_int64 (f32 (a - b))) frame_last frame_start) (\<lambda>frame_dur.
          (let num_emitter_brut = sum_list frame_dur in
           if num_emitter_brut < 0 then Inl RuntimeError
           else
             (let n = nat num_emitter_brut;
                  ncols = (case l_xyz self of [] \<Rightarrow> 0 | r # _ \<Rightarrow> length r);
                  b0 = \<lparr> xyz_b = replicate n (replicate ncols (Fin 0)),
                         phot_b = replicate n (Fin 0), frame_ix_b = replicate n 0,
                         id_b = replicate n 0, c_b = 0 \<rparr>
              in bnd (loop_emitters self tes frame_start frame_dur [0..<length (l_xyz self)] b0)
                   (\<lambda>b. Inr (xyz_b b, phot_b b, frame_ix_b b, id_b b)))))))"

text \<open>
  \<open>return_emitterset\<close>: the float buffers of frame indices and identities are cast with
  \<open>.int()\<close>, to 32-bit integers.
\<close>

definition return_emitterset :: "LooseEmitterSet \<Rightarrow> error + warning list \<times> EmitterSet" where
  "return_emitterset self =
     bnd (distribute_framewise self) (\<lambda>(xyz1, phot1, frame1, id1).
       EmitterSet_init xyz1 phot1 (map to_int32 frame1) (Some (map to_int32 id1)) None None None
         None None True (l_xy_unit self) None)"


section \<open>What the specification says\<close>

text \<open>
  The alignment invariant in the specification's words: every per-emitter attribute has
  the leading dimension of \<open>xyz\<close>, and \<open>xyz\<close> and \<open>xyz_cr\<close> have three columns.
\<close>

definition cols3 :: "'a list list \<Rightarrow> bool" where
  "cols3 t = list_all (\<lambda>r. length r = 3) t"

definition aligned :: "EmitterSet \<Rightarrow> bool" where
  "aligned em =
     (length (phot em) = len em \<and> length (frame_ix em) = len em \<and> length (id_em em) = len em
      \<and> length (prob em) = len em \<and> length (bg em) = len em \<and> length (xyz_cr em) = len em
      \<and> length (phot_cr em) = len em \<and> length (bg_cr em) = len em
      \<and> cols3 (xyz em) \<and> cols3 (xyz_cr em))"

text \<open>
  The specification's rule for one optional field in an equality test: "either both are
  entirely NaN, or both are close within tolerance", the field of one container against
  the same field of the other.
\<close>

definition field_equal_spec :: "fl list \<Rightarrow> fl list \<Rightarrow> bool" where
  "field_equal_spec f g = ((all_nan f \<and> all_nan g) \<or> tens_almeq f g eq_precision)"

definition field_equal_spec2 :: "fl list list \<Rightarrow> fl list list \<Rightarrow> bool" where
  "field_equal_spec2 f g = ((all_nan2 f \<and> all_nan2 g) \<or> tens_almeq2 f g eq_precision)"

text \<open>
  The specification's metadata equality: pixel sizes match and units match, two unset
  values counting as a match.
\<close>

definition eq_attr_spec :: "EmitterSet \<Rightarrow> EmitterSet \<Rightarrow> bool" where
  "eq_attr_spec a b =
     ((case (px_size a, px_size b) of
         (None, None) \<Rightarrow> True
       | (Some p, Some q) \<Rightarrow> length p = length q \<and> list_all2 feq p q
       | _ \<Rightarrow> False)
      \<and> xy_unit a = xy_unit b)"

section \<open>Example inputs and auxiliary notions\<close>

definition em_one :: EmitterSet where
  "em_one =
     \<lparr> xyz = [[Fin 1, Fin 2, Fin 3]], phot = [Fin 10], frame_ix = [0], id_em = [- 1],
       prob = [Fin 1], bg = [Fin 5], xyz_cr = [[Fin 1, Fin 1, Fin 1]], phot_cr = [NaN],
       bg_cr = [NaN], xy_unit = Some ''px'', px_size = None, sorted_em = False \<rparr>"

definition em_two :: EmitterSet where
  "em_two =
     \<lparr> xyz = [[Fin 1, Fin 2, Fin 3], [Fin 4, Fin 5, Fin 6]], phot = [Fin 10, Fin 20],
       frame_ix = [0, 5], id_em = [- 1, - 1], prob = [Fin 1, Fin 1], bg = [NaN, NaN],
       xyz_cr = [[NaN, NaN, NaN], [NaN, NaN, NaN]], phot_cr = [NaN, NaN], bg_cr = [NaN, NaN],
       xy_unit = Some ''px'', px_size = None, sorted_em = False \<rparr>"

text \<open>The container of no emitters, as \<open>EmptyEmitterSet()\<close> builds it.\<close>

definition em_empty :: EmitterSet where
  "em_empty =
     \<lparr> xyz = [], phot = [], frame_ix = [], id_em = [], prob = [], bg = [], xyz_cr = [],
       phot_cr = [], bg_cr = [], xy_unit = None, px_size = None, sorted_em = False \<rparr>"

text \<open>
  A pixel size of two components, "extended with an implicit unit scale factor for the
  3rd (z) axis".
\<close>

definition extend_z :: "fl list \<Rightarrow> fl list" where
  "extend_z p = (if length p = 2 then p @ [Fin 1] else p)"


text \<open>Tensors that hold finite numbers only, and containers whose unit the validation accepts.\<close>

definition all_fin :: "fl list \<Rightarrow> bool" where
  "all_fin t = list_all (\<lambda>x. case x of Fin _ \<Rightarrow> True | _ \<Rightarrow> False) t"

definition all_fin2 :: "fl list list \<Rightarrow> bool" where
  "all_fin2 t = list_all all_fin t"

definition unit_known :: "EmitterSet \<Rightarrow> bool" where
  "unit_known em = (case xy_unit em of None \<Rightarrow> True | Some u \<Rightarrow> u \<in> set xy_units)"

text \<open>
  Containers on which an equality test meets no NaN outside a field that is NaN
  throughout: positions, photon counts and probabilities are finite, and the optional
  fields are each finite throughout or NaN throughout, with the uncertainties NaN
  throughout when the background is.
\<close>

definition plain_values :: "EmitterSet \<Rightarrow> bool" where
  "plain_values c =
     (all_fin2 (xyz c) \<and> all_fin (phot c) \<and> all_fin (prob c)
      \<and> ((all_fin (bg c) \<and> (all_nan2 (xyz_cr c) \<or> all_fin2 (xyz_cr c))
             \<and> (all_nan (phot_cr c) \<or> all_fin (phot_cr c))
             \<and> (all_nan (bg_cr c) \<or> all_fin (bg_cr c)))
          \<or> (all_nan (bg c) \<and> all_nan2 (xyz_cr c) \<and> all_nan (phot_cr c) \<and> all_nan (bg_cr c))))"

definition em_bg_part :: EmitterSet where
  "em_bg_part = em_two \<lparr> bg := [NaN, Fin 1] \<rparr>"

text \<open>
  A sort routine that meets \<open>sort_contract\<close> and keeps rows of equal value in their
  order. Where no value occurs twice, every routine that meets the contract returns the
  same indices.
\<close>

definition stable_sort :: "int list \<Rightarrow> int list \<times> nat list" where
  "stable_sort xs =
     (let ix = sort_key (\<lambda>i. xs ! i) [0..<length xs] in (map (\<lambda>i. xs ! i) ix, ix))"



definition em_rev :: EmitterSet where
  "em_rev = em_two \<lparr> frame_ix := [5, 0] \<rparr>"


text \<open>The container with the rows at the positions \<open>ix\<close>, in that order, and the sorted flag set.\<close>

definition permuted :: "EmitterSet \<Rightarrow> nat list \<Rightarrow> EmitterSet" where
  "permuted self ix =
     self \<lparr> frame_ix := map (\<lambda>i. frame_ix self ! i) ix, xyz := map (\<lambda>i. xyz self ! i) ix,
            phot := map (\<lambda>i. phot self ! i) ix, id_em := map (\<lambda>i. id_em self ! i) ix,
            prob := map (\<lambda>i. prob self ! i) ix, bg := map (\<lambda>i. bg self ! i) ix,
            xyz_cr := map (\<lambda>i. xyz_cr self ! i) ix, phot_cr := map (\<lambda>i. phot_cr self ! i) ix,
            bg_cr := map (\<lambda>i. bg_cr self ! i) ix, sorted_em := True \<rparr>"

text \<open>
  A temporal distributor whose attributes all have one entry per emitter, and one whose
  float tensors hold float32 values: numbers that \<open>f32\<close> leaves as they are, below
  \<open>2 ^ 128\<close> in magnitude, infinities and NaN.
\<close>

definition loose_aligned :: "LooseEmitterSet \<Rightarrow> bool" where
  "loose_aligned l =
     (length (intensity l) = length (l_xyz l) \<and> length (l_id l) = length (l_xyz l)
      \<and> length (t0 l) = length (l_xyz l) \<and> length (ontime l) = length (l_xyz l))"

definition is_f32 :: "real \<Rightarrow> bool" where
  "is_f32 x = (f32 x = x \<and> \<bar>x\<bar> < 2 ^ 128)"

definition is_fl32 :: "fl \<Rightarrow> bool" where
  "is_fl32 v = (case v of Fin x \<Rightarrow> is_f32 x | _ \<Rightarrow> True)"

definition float32_values :: "LooseEmitterSet \<Rightarrow> bool" where
  "float32_values l =
     (list_all (list_all is_fl32) (l_xyz l) \<and> list_all is_fl32 (intensity l)
      \<and> list_all is_f32 (t0 l) \<and> list_all is_f32 (ontime l))"

text \<open>
  The end time of emitter \<open>i\<close>, the float32 sum of its start time and its on-time. An
  emitter's frames are in order when it ends no earlier than the frame it starts in, and
  small when the first and the last are within \<open>2 ^ 23\<close> of 0.
\<close>

definition te_at :: "LooseEmitterSet \<Rightarrow> nat \<Rightarrow> real" where
  "te_at l i = f32 (t0 l ! i + ontime l ! i)"

definition frames_ok :: "LooseEmitterSet \<Rightarrow> bool" where
  "frames_ok l = list_all (\<lambda>i. \<lfloor>t0 l ! i\<rfloor> \<le> \<lceil>te_at l i\<rceil>) [0..<length (l_xyz l)]"

definition frames_small :: "LooseEmitterSet \<Rightarrow> bool" where
  "frames_small l =
     list_all (\<lambda>i. \<bar>\<lfloor>t0 l ! i\<rfloor>\<bar> \<le> 8388608 \<and> \<bar>\<lceil>te_at l i\<rceil>\<bar> \<le> 8388608) [0..<length (l_xyz l)]"

text \<open>
  The rows of the lowering, as (position, photon count, frame, identity as stored): for
  emitter \<open>i\<close> one row per integer frame \<open>f\<close> in \<open>[floor(t0), ceil(te))\<close>, with the float32
  product of the intensity and the float32 difference \<open>min(te, f + 1) - max(t0, f)\<close> as
  photon count; emitters in their order. The identity is stored as a float32.
\<close>

definition frame_rows :: "LooseEmitterSet \<Rightarrow> nat \<Rightarrow> (fl list \<times> fl \<times> int \<times> real) list" where
  "frame_rows l i =
     (let ts = t0 l ! i; tend = te_at l i in
      map (\<lambda>f. (l_xyz l ! i,
                 round32 (fmul (Fin (f32 (min tend (real_of_int f + 1) - max ts (real_of_int f))))
                            (intensity l ! i)),
                 f, f32 (real_of_int (l_id l ! i))))
        [\<lfloor>ts\<rfloor>..\<lceil>tend\<rceil> - 1])"

definition lowered_rows :: "LooseEmitterSet \<Rightarrow> (fl list \<times> fl \<times> int \<times> real) list" where
  "lowered_rows l = concat (map (frame_rows l) [0..<length (l_xyz l)])"

text \<open>
  The container of these rows, the identities cast to 32-bit integers and the other
  fields at their defaults.
\<close>

definition lowered_set :: "LooseEmitterSet \<Rightarrow> EmitterSet" where
  "lowered_set l =
     (let rows = lowered_rows l; n = length rows in
      \<lparr> xyz = map fst rows, phot = map (\<lambda>r. fst (snd r)) rows,
        frame_ix = map (\<lambda>r. fst (snd (snd r))) rows,
        id_em = map (\<lambda>r. to_int32 (snd (snd (snd r)))) rows,
        prob = replicate n (Fin 1), bg = replicate n NaN,
        xyz_cr = replicate n [NaN, NaN, NaN], phot_cr = replicate n NaN, bg_cr = replicate n NaN,
        xy_unit = l_xy_unit l, px_size = None, sorted_em = False \<rparr>)"

text \<open>
  Temporal distributors. The first has two emitters, on the frames 0, 1 and 2. The
  second has one emitter that starts at 1 with an on-time of \<open>2 ^ -25\<close>, less than half
  the distance from 1 to the next float32. The third has one emitter that starts at
  \<open>2 ^ 24\<close>, from where on the float32 numbers are the even integers, and is on for two
  frames. The fourth has one emitter with a negative on-time. The fifth has one emitter
  with the identity \<open>2 ^ 24 + 1\<close>, which is not a float32.
\<close>

definition loose_example :: LooseEmitterSet where
  "loose_example =
     \<lparr> l_xyz = [[Fin 1, Fin 2, Fin 3], [Fin 4, Fin 5, Fin 6]], intensity = [Fin 100, Fin 10],
       l_id = [0, 1], t0 = [1 / 2, 9 / 4], ontime = [1, 1 / 2], l_xy_unit = Some ''px'' \<rparr>"

definition loose_short :: LooseEmitterSet where
  "loose_short =
     \<lparr> l_xyz = [[Fin 1, Fin 2, Fin 3]], intensity = [Fin 100], l_id = [0], t0 = [1],
       ontime = [1 / 2 ^ 25], l_xy_unit = Some ''px'' \<rparr>"

definition loose_far :: LooseEmitterSet where
  "loose_far =
     \<lparr> l_xyz = [[Fin 1, Fin 2, Fin 3]], intensity = [Fin 1], l_id = [0], t0 = [16777216],
       ontime = [2], l_xy_unit = Some ''px'' \<rparr>"

definition loose_negative :: LooseEmitterSet where
  "loose_negative =
     \<lparr> l_xyz = [[Fin 1, Fin 2, Fin 3]], intensity = [Fin 1], l_id = [0], t0 = [5],
       ontime = [- 3], l_xy_unit = Some ''px'' \<rparr>"

definition loose_large_id :: LooseEmitterSet where
  "loose_large_id =
     \<lparr> l_xyz = [[Fin 1, Fin 2, Fin 3]], intensity = [Fin 100], l_id = [16777217], t0 = [0],
       ontime = [1], l_xy_unit = Some ''px'' \<rparr>"

text \<open>
  For the loop of \<open>_distribute_framewise\<close>: a tensor with \<open>rows\<close> written from position
  \<open>c\<close> on, the row the loop body writes, and the four output tensors after a run of
  writes.
\<close>

definition overwrite :: "'a list \<Rightarrow> nat \<Rightarrow> 'a list \<Rightarrow> 'a list" where
  "overwrite buf c rows = take c buf @ rows @ drop (c + length rows) buf"

definition row_of ::
  "LooseEmitterSet \<Rightarrow> real list \<Rightarrow> real list \<Rightarrow> nat \<Rightarrow> nat \<Rightarrow> fl list \<times> fl \<times> real \<times> real" where
  "row_of l tes fs i j =
     (let f = f32 (fs ! i + f32 (real j)) in
      (map round32 (l_xyz l ! i),
       round32 (fmul (Fin (f32 (min (tes ! i) (f32 (f + 1)) - max (t0 l ! i) f))) (intensity l ! i)),
       f, f32 (real_of_int (l_id l ! i))))"

definition written :: "buffers \<Rightarrow> (fl list \<times> fl \<times> real \<times> real) list \<Rightarrow> buffers" where
  "written b rows =
     \<lparr> xyz_b = overwrite (xyz_b b) (c_b b) (map fst rows),
       phot_b = overwrite (phot_b b) (c_b b) (map (\<lambda>r. fst (snd r)) rows),
       frame_ix_b = overwrite (frame_ix_b b) (c_b b) (map (\<lambda>r. fst (snd (snd r))) rows),
       id_b = overwrite (id_b b) (c_b b) (map (\<lambda>r. snd (snd (snd r))) rows),
       c_b = c_b b + length rows \<rparr>"

definition buf_len :: "buffers \<Rightarrow> nat \<Rightarrow> bool" where
  "buf_len b n = (length (xyz_b b) = n \<and> length (phot_b b) = n \<and> length (frame_ix_b b) = n
                  \<and> length (id_b b) = n)"

definition in_range :: "LooseEmitterSet \<Rightarrow> real list \<Rightarrow> real list \<Rightarrow> nat \<Rightarrow> bool" where
  "in_range l tes fs i =
     (i < length (l_xyz l) \<and> i < length fs \<and> i < length (l_id l) \<and> i < length tes
      \<and> i < length (t0 l) \<and> i < length (intensity l))"

text \<open>
  The part of the alignment invariant that \<open>_sanity_check\<close> tests, position tensors of
  two columns, and the number of rows an index selects.
\<close>

definition checked_lengths :: "EmitterSet \<Rightarrow> bool" where
  "checked_lengths em =
     (length (phot em) = len em \<and> length (frame_ix em) = len em \<and> length (id_em em) = len em
      \<and> length (bg em) = len em \<and> length (xyz_cr em) = len em
      \<and> length (phot_cr em) = len em \<and> length (bg_cr em) = len em)"

definition cols2 :: "'a list list \<Rightarrow> bool" where
  "cols2 t = list_all (\<lambda>r. length r = 2) t"

definition ix_count :: "index \<Rightarrow> nat" where
  "ix_count ix =
     (case ix of IntIx i \<Rightarrow> 1 | ListIx js \<Rightarrow> length js | TensorIx js \<Rightarrow> length js
      | MaskIx m \<Rightarrow> length (filter (\<lambda>b. b) m))"

definition em_cr_narrow :: EmitterSet where
  "em_cr_narrow =
     \<lparr> xyz = [[Fin 1, Fin 2, Fin 3]], phot = [Fin 10], frame_ix = [0], id_em = [- 1],
       prob = [Fin 1], bg = [NaN], xyz_cr = [[Fin 1, Fin 1]], phot_cr = [NaN],
       bg_cr = [NaN], xy_unit = Some ''px'', px_size = None, sorted_em = False \<rparr>"

section \<open>Equality and metadata equality\<close>

lemmas eq_defs = EmitterSet_eq_def eq_attr_def px_size_eq_all_def tens_almeq_def tens_almeq2_def
  tens_almeq_int_def fclose_def all_nan_def all_nan2_def isnan_def eq_precision_def bnd_def feq_def

text \<open>
  C2. The claim: with positions, frame indices, photon counts and probabilities close and
  units equal, \<open>a == b\<close> is True exactly when each of \<open>bg\<close>, \<open>xyz_cr\<close>, \<open>phot_cr\<close>, \<open>bg_cr\<close>
  is entirely NaN in both or close to its own counterpart. The source compares \<open>bg\<close> in
  the else branch of all four fields. Two containers that differ in \<open>xyz_cr\<close> alone, with
  \<open>bg\<close> populated and equal, compare equal, although \<open>xyz_cr\<close> is neither entirely NaN nor
  close to its counterpart.
\<close>

theorem eq_ignores_xyz_cr:
  "EmitterSet_eq em_one (em_one \<lparr> xyz_cr := [[Fin 2, Fin 2, Fin 2]] \<rparr>) = Inr True
   \<and> \<not> field_equal_spec2 (xyz_cr em_one) [[Fin 2, Fin 2, Fin 2]]
   \<and> field_equal_spec (bg em_one) (bg em_one)
   \<and> field_equal_spec (phot_cr em_one) (phot_cr em_one)
   \<and> field_equal_spec (bg_cr em_one) (bg_cr em_one)"
  by (simp add: em_one_def eq_defs field_equal_spec_def field_equal_spec2_def)

text \<open>
  C8. The claim: \<open>eq_attr\<close> is True exactly when pixel sizes match and units match. With
  both pixel sizes unset the source returns True before it looks at the units: two
  containers in different units, neither with a pixel size, have equal metadata. With
  the pixel size set on the left only, the comparison raises.
\<close>

theorem eq_attr_skips_unit:
  "eq_attr em_one (em_one \<lparr> xy_unit := Some ''nm'' \<rparr>) = Inr True
   \<and> \<not> eq_attr_spec em_one (em_one \<lparr> xy_unit := Some ''nm'' \<rparr>)
   \<and> eq_attr (em_one \<lparr> px_size := Some [Fin 100, Fin 100] \<rparr>) em_one = Inl AttributeError"
  by (simp add: em_one_def eq_defs eq_attr_spec_def)

text \<open>
  C10. The claim: the result of \<open>a == b\<close> never depends on a pixel size. \<open>__eq__\<close> drops
  what \<open>eq_attr\<close> returns, but not what it raises: a container compares equal to itself,
  and the comparison raises once the left one alone gets a pixel size, or once the two
  pixel sizes have two and three components.
\<close>

theorem eq_raises_on_px_size:
  "EmitterSet_eq em_one em_one = Inr True
   \<and> EmitterSet_eq (em_one \<lparr> px_size := Some [Fin 100, Fin 100] \<rparr>) em_one = Inl AttributeError
   \<and> EmitterSet_eq (em_one \<lparr> px_size := Some [Fin 100, Fin 100] \<rparr>)
        (em_one \<lparr> px_size := Some [Fin 100, Fin 100, Fin 1] \<rparr>) = Inl RuntimeError"
  by (simp add: em_one_def eq_defs)

section \<open>Frame ranges\<close>

lemmas init_eval = EmitterSet_init_def set_typed_def pad_xyz_def sanity_check_def
  same_shape_tensor_def same_dim_tensor_def len_def bnd_def xy_units_def Let_def

lemmas sub_defs = get_subset_frame_def getitem_def get_subset_def single_element_def take_ix_def
  mask_rows_def pick_row_def get_row_def EmitterSet_init_def set_typed_def pad_xyz_def
  num_emitter_def bnd_def len_def

text \<open>
  C7. The claim: \<open>get_subset_frame\<close> selects the emitters with frame index in
  \<open>[frame_start, frame_end]\<close>, and a truthy \<open>shift_to\<close> fails only on a non-empty
  selection. With a truthy \<open>shift_to\<close> the source reads \<open>num_emitter\<close>, which raises
  whatever the selection holds: no frame of \<open>em_two\<close> lies in \<open>[10, 20]\<close>, and the call
  raises instead of returning the empty selection. On a container of one emitter the
  mask has one element and \<open>get_subset\<close> reads it as the integer index 1 or 0: the
  emitter in range gives an IndexError, the emitter out of range is returned.
\<close>

theorem get_subset_frame_shift_to_raises:
  "filter (\<lambda>f. 10 \<le> f \<and> f \<le> 20) (frame_ix em_two) = []
   \<and> len em_two = 2
   \<and> get_subset_frame em_two 10 20 (Some 1) = Inl DeprecationWarning
   \<and> get_subset_frame em_one 0 0 None = Inl (IndexError 1 1)
   \<and> get_subset_frame em_one 5 9 None = Inr em_one"
  by (simp add: em_one_def em_two_def sub_defs)

section \<open>Indexing with an integer\<close>

text \<open>
  C9. The claim: every integer index out of range fails with a range error that names
  the index and the length. \<open>__getitem__\<close> tests the index from above only
  (\<open>item >= len(self)\<close>); an index below \<open>-N\<close> goes on to \<open>get_subset\<close> and fails in torch, when
  \<open>xyz\<close> is indexed with the list of that one index. On the container of no emitters,
  which \<open>EmptyEmitterSet()\<close> builds, the index \<open>-1\<close> raises the IndexError that names the
  size 0 and no index. The index 0 on the same container, and the indices 2 and \<open>-3\<close> on
  a container of two emitters, raise an IndexError that names the index and the length.
\<close>

theorem getitem_negative_on_empty:
  "EmitterSet_init [] [] [] None None None None None None True None None = Inr ([], em_empty)
   \<and> len em_empty = 0
   \<and> getitem em_empty (IntIx (- 1)) = Inl (IndexErrorOfSize 0)
   \<and> getitem em_empty (IntIx 0) = Inl (IndexError 0 0)
   \<and> getitem em_two (IntIx 2) = Inl (IndexError 2 2)
   \<and> getitem em_two (IntIx (- 3)) = Inl (IndexError (- 3) 2)"
  by (simp add: em_empty_def em_two_def sub_defs sanity_check_def same_shape_tensor_def
      same_dim_tensor_def)

section \<open>Coordinates in pixels and in nanometres\<close>



lemma map_frecip_extend: "(if length (map frecip p) = 2 then map frecip p @ [Fin 1] else map frecip p) = map frecip (extend_z p)"
  by (simp add: extend_z_def frecip_def)





section \<open>Concatenation of one container\<close>

lemma all_fin_almeq: "all_fin t \<Longrightarrow> tens_almeq t t eq_precision"
  by (induction t) (auto simp: all_fin_def tens_almeq_def fclose_def eq_precision_def split: fl.splits)

lemma all_fin2_almeq: "all_fin2 t \<Longrightarrow> tens_almeq2 t t eq_precision"
  using all_fin_almeq
  by (induction t) (auto simp: all_fin2_def tens_almeq2_def tens_almeq_def)

lemma almeq_int_refl: "tens_almeq_int t t eq_precision"
  by (induction t) (auto simp: tens_almeq_int_def eq_precision_def)

lemma eq_attr_self: "\<exists>r. eq_attr c c = Inr r"
  by (cases "px_size c") (auto simp: eq_attr_def px_size_eq_all_def bnd_def)

lemma eq_sorted_irrelevant: "EmitterSet_eq (c \<lparr> sorted_em := s \<rparr>) c = EmitterSet_eq c c"
  by (simp add: EmitterSet_eq_def eq_attr_def)

lemma eq_self_plain: "plain_values c \<Longrightarrow> EmitterSet_eq c c = Inr True"
proof -
  assume p: "plain_values c"
  obtain r where r: "eq_attr c c = Inr r" using eq_attr_self by blast
  have 1: "tens_almeq2 (xyz c) (xyz c) eq_precision" "tens_almeq (phot c) (phot c) eq_precision"
     "tens_almeq (prob c) (prob c) eq_precision"
    using p by (auto simp: plain_values_def all_fin_almeq all_fin2_almeq)
  from p consider (fin) "all_fin (bg c)" | (nan) "all_nan (bg c)" "all_nan2 (xyz_cr c)" "all_nan (phot_cr c)" "all_nan (bg_cr c)"
    by (auto simp: plain_values_def)
  then show ?thesis
  proof cases
    case fin
    then have "tens_almeq (bg c) (bg c) eq_precision" by (rule all_fin_almeq)
    then show ?thesis using 1 r by (simp add: EmitterSet_eq_def almeq_int_refl bnd_def)
  next
    case nan
    then show ?thesis using 1 r by (simp add: EmitterSet_eq_def almeq_int_refl bnd_def)
  qed
qed

lemma first_set_single: "first_set [x] = x"
  by (cases x) auto

lemma cols3_is_mat: "cols3 t \<Longrightarrow> is_mat t"
  by (cases t) (auto simp: cols3_def is_mat_def list_all_iff)

lemma cols3_pad: "cols3 t \<Longrightarrow> pad_xyz t = t"
  by (cases t) (auto simp: cols3_def pad_xyz_def)

lemma set_typed_aligned:
  "aligned c \<Longrightarrow>
   set_typed (xyz c) (phot c) (frame_ix c) (Some (id_em c)) (Some (prob c)) (Some (bg c))
     (Some (xyz_cr c)) (Some (phot_cr c)) (Some (bg_cr c))
   = c \<lparr> xy_unit := None, px_size := None, sorted_em := False \<rparr>"
  by (cases c) (auto simp: set_typed_def aligned_def cols3_pad len_def)

lemma init_aligned:
  "aligned c \<Longrightarrow>
   EmitterSet_init (xyz c) (phot c) (frame_ix c) (Some (id_em c)) (Some (prob c)) (Some (bg c))
     (Some (xyz_cr c)) (Some (phot_cr c)) (Some (bg_cr c)) False u p
   = Inr ([], c \<lparr> xy_unit := u, px_size := p, sorted_em := False \<rparr>)"
  by (simp add: EmitterSet_init_def set_typed_aligned)

lemma sanity_aligned:
  "aligned c \<Longrightarrow> unit_known c \<Longrightarrow>
   sanity_check c False =
     Inr (if len c > 0 \<and> xy_unit c = None
          then [UserWarning ''No xyz unit specified. No guarantees given ...''] else [])"
  by (auto simp: sanity_check_def aligned_def same_shape_tensor_def same_dim_tensor_def unit_known_def
      len_def split: option.splits)

lemma cat_single_value:
  assumes "aligned c" "unit_known c"
  shows "cat [c] None None =
     Inr (if len c > 0 \<and> xy_unit c = None
          then [UserWarning ''No xyz unit specified. No guarantees given ...''] else [],
          c \<lparr> sorted_em := False \<rparr>)"
proof -
  have m: "is_mat (xyz c)" "is_mat (xyz_cr c)"
    using assms(1) by (auto simp: aligned_def cols3_is_mat)
  have a': "aligned (c \<lparr> sorted_em := False \<rparr>)" "unit_known (c \<lparr> sorted_em := False \<rparr>)"
    using assms by (auto simp: aligned_def unit_known_def len_def)
  have s: "(set_typed (xyz c) (phot c) (frame_ix c) (Some (id_em c)) (Some (prob c)) (Some (bg c))
     (Some (xyz_cr c)) (Some (phot_cr c)) (Some (bg_cr c)))
     \<lparr> sorted_em := False, xy_unit := xy_unit c, px_size := px_size c \<rparr> = c \<lparr> sorted_em := False \<rparr>"
    using assms(1) by (simp add: set_typed_aligned)
  show ?thesis
    using m sanity_aligned [OF a']
    by (simp add: cat_def torch_cat_def torch_cat2_def bnd_def get_row_def first_set_single
        EmitterSet_init_def s len_def)
qed

text \<open>
  C6. The claim: \<open>cat([c]) == c\<close> for every container \<open>c\<close>. On a container that satisfies
  the alignment invariant, with no unit or a supported one, \<open>cat([c])\<close> with the default
  shift arguments is \<open>c\<close> again (with the sorted flag cleared), so \<open>cat([c]) == c\<close> gives
  what \<open>c == c\<close> gives, and that is True on \<open>plain_values\<close>.
\<close>

theorem cat_single:
  "aligned c \<Longrightarrow> unit_known c \<Longrightarrow>
   (\<exists>ws. cat [c] None None = Inr (ws, c \<lparr> sorted_em := False \<rparr>))
   \<and> bnd (cat [c] None None) (\<lambda>(ws, em). EmitterSet_eq em c) = EmitterSet_eq c c
   \<and> (plain_values c \<longrightarrow> bnd (cat [c] None None) (\<lambda>(ws, em). EmitterSet_eq em c) = Inr True)"
  by (simp add: cat_single_value bnd_def eq_sorted_irrelevant eq_self_plain)

theorem cat_single_witness:
  "(\<exists>ws. cat [em_two] None None = Inr (ws, em_two))
   \<and> bnd (cat [em_two] None None) (\<lambda>(ws, em). EmitterSet_eq em em_two) = Inr True"
proof -
  have a: "aligned em_two" by (simp add: em_two_def aligned_def cols3_def len_def)
  have u: "unit_known em_two" by (simp add: em_two_def unit_known_def xy_units_def)
  have p: "plain_values em_two"
    by (simp add: em_two_def plain_values_def all_fin_def all_fin2_def all_nan_def all_nan2_def isnan_def)
  have s: "em_two \<lparr> sorted_em := False \<rparr> = em_two" by (simp add: em_two_def)
  show ?thesis using cat_single [OF a u] p s by metis
qed

text \<open>
  The claim as stated fails: a background that is NaN for one emitter and a number for
  another is never close to itself, so the container is not equal to its own
  concatenation.
\<close>

theorem cat_single_partial_nan:
  "aligned em_bg_part \<and> unit_known em_bg_part
   \<and> bnd (cat [em_bg_part] None None) (\<lambda>(ws, em). EmitterSet_eq em em_bg_part) = Inr False"
  by (simp add: em_bg_part_def em_two_def aligned_def cols3_def len_def unit_known_def xy_units_def
      cat_def torch_cat_def torch_cat2_def is_mat_def get_row_def EmitterSet_init_def
      set_typed_def pad_xyz_def sanity_check_def same_shape_tensor_def same_dim_tensor_def
      eq_defs)

section \<open>Sorting by frame index\<close>

lemma index_rows_nat:
  "\<forall>i\<in>set ix. i < length xs \<Longrightarrow> index_rows xs (map int ix) = Inr (map (\<lambda>i. xs ! i) ix)"
  by (induction ix) (auto simp: bnd_def pick_row_def get_row_def)

lemma stable_sort_contract: "sort_contract stable_sort"
  by (simp add: sort_contract_def stable_sort_def Let_def sorted_sort_key)

lemma contract_set:
  assumes "sort_contract ts"
  shows "set (snd (ts xs)) = {0..<length xs}"
proof -
  have "mset (snd (ts xs)) = mset [0..<length xs]"
    using assms by (simp add: sort_contract_def)
  then have "set (snd (ts xs)) = set [0..<length xs]" by (rule mset_eq_setD)
  then show ?thesis by simp
qed




lemma sort_inplace_value:
  assumes c: "sort_contract ts"
    and l: "length (xyz self) = length (frame_ix self)" "length (phot self) = length (frame_ix self)"
      "length (id_em self) = length (frame_ix self)" "length (prob self) = length (frame_ix self)"
      "length (bg self) = length (frame_ix self)" "length (xyz_cr self) = length (frame_ix self)"
      "length (phot_cr self) = length (frame_ix self)" "length (bg_cr self) = length (frame_ix self)"
  shows "sort_by_frame_inplace ts self = Inr (permuted self (snd (ts (frame_ix self))))"
proof -
  have r: "\<forall>i\<in>set (snd (ts (frame_ix self))). i < length (frame_ix self)"
    using contract_set [OF c] by simp
  have f: "fst (ts (frame_ix self)) = map (\<lambda>i. frame_ix self ! i) (snd (ts (frame_ix self)))"
    using c by (simp add: sort_contract_def)
  have i: "\<And>xs :: 'a list. length xs = length (frame_ix self) \<Longrightarrow>
        index_rows xs (map int (snd (ts (frame_ix self)))) = Inr (map (\<lambda>i. xs ! i) (snd (ts (frame_ix self))))"
    using r by (simp add: index_rows_nat)
  show ?thesis
    using f by (simp add: sort_by_frame_inplace_def case_prod_beta i l bnd_def permuted_def)
qed


lemma map_nth_len: "length xs = n \<Longrightarrow> map (\<lambda>i. xs ! i) [0..<n] = xs"
  by (auto simp: map_nth)

lemma clone_aligned: "aligned self \<Longrightarrow> clone self = Inr (self \<lparr> sorted_em := False \<rparr>)"
proof -
  assume a: "aligned self"
  have "set_typed (xyz self) (phot self) (frame_ix self) (Some (id_em self)) (Some (prob self))
          (Some (bg self)) (Some (xyz_cr self)) (Some (phot_cr self)) (Some (bg_cr self))
        = self \<lparr> xy_unit := None, px_size := None, sorted_em := False \<rparr>"
    using a by (rule set_typed_aligned)
  then show ?thesis by (simp add: clone_def EmitterSet_init_def bnd_def)
qed





lemma stable_sort_asc: "stable_sort [0, 5] = ([0, 5], [0, 1])"
  by code_simp




section \<open>Lowering a temporal distributor\<close>

text \<open>Float32 numbers: a mantissa of fewer than 24 bits times a power of two is one.\<close>

lemma rne_int: "rne (of_int z) = z"
  by (simp add: rne_def)

lemma pow2_powr: "pow2 k = 2 powr (of_int k)"
  by (simp add: pow2_def powr_int)

lemma pow2_pos: "0 < pow2 k"
  by (simp add: pow2_powr)

lemma pow2_add: "pow2 (a + b) = pow2 a * pow2 b"
  by (simp add: pow2_powr powr_add)

lemma pow2_nat: "0 \<le> d \<Longrightarrow> pow2 d = of_int (2 ^ nat d)"
  by (simp add: pow2_def)

lemma f32_val:
  assumes "pow2 k \<le> \<bar>x\<bar>" "\<bar>x\<bar> < pow2 (k + 1)" "- 126 \<le> k"
  shows "f32 x = of_int (rne (x / pow2 (k - 23))) * pow2 (k - 23)"
proof -
  have p: "0 < \<bar>x\<bar>" using assms(1) pow2_pos [of k] by linarith
  have "\<lfloor>log 2 \<bar>x\<bar>\<rfloor> = k"
    using assms(1,2) p by (simp add: floor_log_eq_powr_iff pow2_powr)
  then show ?thesis using p assms(3) by (simp add: f32_def Let_def max_def)
qed

lemma floor_log_int:
  assumes "m \<noteq> 0" "\<bar>m\<bar> < 2 ^ 24"
  shows "0 \<le> \<lfloor>log 2 \<bar>real_of_int m\<bar>\<rfloor>" "\<lfloor>log 2 \<bar>real_of_int m\<bar>\<rfloor> \<le> 23"
proof -
  have 1: "1 \<le> \<bar>real_of_int m\<bar>" using assms(1) by (simp add: abs_if)
  then have "0 \<le> log 2 \<bar>real_of_int m\<bar>" by simp
  then show "0 \<le> \<lfloor>log 2 \<bar>real_of_int m\<bar>\<rfloor>" by simp
  have "\<bar>real_of_int m\<bar> < 2 ^ 24"
    using assms(2) by (metis of_int_abs of_int_less_numeral_power_cancel_iff)
  then have "\<bar>real_of_int m\<bar> < 2 powr 24" by simp
  then have "log 2 \<bar>real_of_int m\<bar> < 24"
    using 1 by (simp add: log_less_iff)
  then have "\<lfloor>log 2 \<bar>real_of_int m\<bar>\<rfloor> < 24" by (simp add: floor_less_iff)
  then show "\<lfloor>log 2 \<bar>real_of_int m\<bar>\<rfloor> \<le> 23" by simp
qed

lemma f32_exact:
  assumes m: "\<bar>m\<bar> < 2 ^ 24" and k: "- 149 \<le> k"
  shows "f32 (of_int m * pow2 k) = of_int m * pow2 k"
proof (cases "m = 0")
  case True
  then show ?thesis by (simp add: f32_def)
next
  case False
  define x where "x = of_int m * pow2 k"
  define a where "a = \<lfloor>log 2 \<bar>real_of_int m\<bar>\<rfloor>"
  have a: "0 \<le> a" "a \<le> 23" using floor_log_int [OF False m] by (simp_all add: a_def)
  have x0: "x \<noteq> 0" using False pow2_pos [of k] by (simp add: x_def)
  have "log 2 \<bar>x\<bar> = log 2 \<bar>real_of_int m\<bar> + of_int k"
    using False by (simp add: x_def abs_mult pow2_powr log_mult)
  then have e: "\<lfloor>log 2 \<bar>x\<bar>\<rfloor> = a + k" by (simp add: a_def)
  define e' where "e' = max (a + k) (- 126)"
  define d where "d = k - (e' - 23)"
  have d: "0 \<le> d" using a k by (simp add: d_def e'_def max_def)
  have "pow2 k = pow2 d * pow2 (e' - 23)"
    using pow2_add [of d "e' - 23"] by (simp add: d_def)
  then have pk: "pow2 k = of_int (2 ^ nat d) * pow2 (e' - 23)"
    using pow2_nat [OF d] by simp
  have u0: "pow2 (e' - 23) \<noteq> 0" using pow2_pos [of "e' - 23"] by simp
  have "x / pow2 (e' - 23) = of_int (m * 2 ^ nat d)"
    using u0 by (simp add: x_def pk)
  then have "rne (x / pow2 (e' - 23)) = m * 2 ^ nat d"
    by (simp only: rne_int)
  then have "f32 x = of_int (m * 2 ^ nat d) * pow2 (e' - 23)"
    using x0 by (simp add: f32_def Let_def e e'_def)
  also have "\<dots> = x" by (simp add: x_def pk)
  finally show ?thesis by (simp add: x_def)
qed

lemma f32_int: "\<bar>n\<bar> \<le> 2 ^ 24 \<Longrightarrow> f32 (of_int n) = of_int n"
proof -
  assume n: "\<bar>n\<bar> \<le> 2 ^ 24"
  show ?thesis
  proof (cases "\<bar>n\<bar> < 2 ^ 24")
    case True
    from f32_exact [OF True, of 0] show ?thesis by (simp add: pow2_def)
  next
    case False
    with n have "\<bar>n\<bar> = 2 ^ 24" by simp
    then have "n = 16777216 \<or> n = - 16777216" by (auto simp: abs_if split: if_splits)
    then show ?thesis
      using f32_exact [of 1 24] f32_exact [of "- 1" 24] by (auto simp: pow2_def)
  qed
qed

lemma f32_dyadic: "\<bar>m\<bar> < 2 ^ 24 \<Longrightarrow> n \<le> 149 \<Longrightarrow> f32 (of_int m / 2 ^ n) = of_int m / 2 ^ n"
  using f32_exact [of m "- int n"] by (cases "n = 0") (simp_all add: pow2_def)

lemma f32_nat: "n \<le> 2 ^ 24 \<Longrightarrow> f32 (real n) = real n"
  using f32_int [of "int n"] by simp

lemma to_int32_int: "- 2147483648 \<le> n \<Longrightarrow> n < 2147483648 \<Longrightarrow> to_int32 (of_int n) = n"
  by (simp add: to_int32_def trunc_def)

lemma to_int64_int:
  "- 9223372036854775808 \<le> n \<Longrightarrow> n < 9223372036854775808 \<Longrightarrow> to_int64 (of_int n) = n"
  by (simp add: to_int64_def trunc_def)

lemma f32_examples:
  "f32 0 = 0" "f32 (1 / 2) = 1 / 2" "f32 (3 / 2) = 3 / 2" "f32 (9 / 4) = 9 / 4" "f32 (11 / 4) = 11 / 4"
  "f32 1 = 1" "f32 2 = 2" "f32 3 = 3" "f32 4 = 4" "f32 5 = 5" "f32 6 = 6" "f32 10 = 10"
  "f32 50 = 50" "f32 100 = 100" "f32 (1 / 33554432) = 1 / 33554432"
  using f32_int [of 0] f32_dyadic [of 1 1] f32_dyadic [of 3 1] f32_dyadic [of 9 2] f32_dyadic [of 11 2]
    f32_int [of 1] f32_int [of 2] f32_int [of 3] f32_int [of 4] f32_int [of 5] f32_int [of 6]
    f32_int [of 10] f32_int [of 50] f32_int [of 100] f32_dyadic [of 1 25]
  by simp_all

lemma f32_below_half_ulp: "f32 (33554433 / 33554432) = 1"
  using f32_val [of 0 "33554433 / 33554432"] by (simp add: pow2_def rne_def)

lemma f32_odd_above_mantissa: "f32 16777217 = 16777216"
  using f32_val [of 24 16777217] by (simp add: pow2_def rne_def)

lemmas float32_defs = float32_values_def is_fl32_def is_f32_def

lemma is_fl32_round: "is_fl32 v \<Longrightarrow> round32 v = v"
  by (cases v) (simp_all add: is_fl32_def is_f32_def)

text \<open>The loop of \<open>_distribute_framewise\<close>.\<close>

lemma get_row_nat: "i < length xs \<Longrightarrow> get_row xs (int i) = Inr (xs ! i)"
  by (simp add: get_row_def)

lemma overwrite_nil: "overwrite buf c [] = buf"
  by (simp add: overwrite_def)

lemma overwrite_update: "c < length buf \<Longrightarrow> overwrite (buf[c := v]) (Suc c) rows = overwrite buf c (v # rows)"
  by (simp add: overwrite_def take_Suc_conv_app_nth)

lemma overwrite_length: "c + length rows \<le> length buf \<Longrightarrow> length (overwrite buf c rows) = length buf"
  by (simp add: overwrite_def)

lemma overwrite_overwrite:
  "length r1 = k \<Longrightarrow> c + k + length r2 \<le> length buf \<Longrightarrow>
   overwrite (overwrite buf c r1) (c + k) r2 = overwrite buf c (r1 @ r2)"
  by (simp add: overwrite_def ac_simps)

lemma overwrite_all: "length buf = length rows \<Longrightarrow> overwrite buf 0 rows = rows"
  by (simp add: overwrite_def)

lemma written_nil: "written b [] = b"
  by (simp add: written_def overwrite_nil)

lemma written_len: "buf_len b n \<Longrightarrow> c_b b + length rows \<le> n \<Longrightarrow> buf_len (written b rows) n"
  by (simp add: buf_len_def written_def overwrite_length)

lemma written_c: "c_b (written b rows) = c_b b + length rows"
  by (simp add: written_def)

lemma written_written:
  "buf_len b n \<Longrightarrow> c_b b + length r1 + length r2 \<le> n \<Longrightarrow>
   written (written b r1) r2 = written b (r1 @ r2)"
  by (simp add: buf_len_def written_def overwrite_overwrite)

lemma write_row_value:
  assumes "i < length (l_xyz l)" "i < length fs" "i < length (l_id l)" "i < length tes"
    "i < length (t0 l)" "i < length (intensity l)" "buf_len b n" "c_b b < n"
  shows "write_row l tes fs i j b = Inr (written b [row_of l tes fs i j])"
  using assms
  by (simp add: write_row_def get_row_nat set_row_def bnd_def buf_len_def written_def row_of_def
      Let_def overwrite_update [symmetric] overwrite_nil)

lemma loop_frames_value:
  "in_range l tes fs i \<Longrightarrow> buf_len b n \<Longrightarrow> c_b b + length js \<le> n \<Longrightarrow>
   loop_frames l tes fs i js b = Inr (written b (map (row_of l tes fs i) js))"
proof (induction js arbitrary: b)
  case Nil
  then show ?case by (simp add: written_nil)
next
  case (Cons j js)
  have w: "write_row l tes fs i j b = Inr (written b [row_of l tes fs i j])"
    using Cons.prems by (intro write_row_value [where n = n]) (auto simp: in_range_def)
  have l: "buf_len (written b [row_of l tes fs i j]) n"
    using Cons.prems by (intro written_len) auto
  have "loop_frames l tes fs i js (written b [row_of l tes fs i j])
          = Inr (written (written b [row_of l tes fs i j]) (map (row_of l tes fs i) js))"
    using Cons.prems by (intro Cons.IH l) (auto simp: written_c)
  also have "written (written b [row_of l tes fs i j]) (map (row_of l tes fs i) js)
          = written b ([row_of l tes fs i j] @ map (row_of l tes fs i) js)"
    using Cons.prems by (intro written_written [where n = n]) auto
  finally show ?case by (simp add: w bnd_def)
qed

lemma loop_emitters_value:
  "\<forall>i\<in>set es. in_range l tes fs i \<and> i < length dur \<Longrightarrow> buf_len b n \<Longrightarrow>
   c_b b + sum_list (map (\<lambda>i. nat (dur ! i)) es) \<le> n \<Longrightarrow>
   loop_emitters l tes fs dur es b =
     Inr (written b (concat (map (\<lambda>i. map (row_of l tes fs i) [0..<nat (dur ! i)]) es)))"
proof (induction es arbitrary: b)
  case Nil
  then show ?case by (simp add: written_nil)
next
  case (Cons i es)
  let ?r = "map (row_of l tes fs i) [0..<nat (dur ! i)]"
  let ?rest = "concat (map (\<lambda>i. map (row_of l tes fs i) [0..<nat (dur ! i)]) es)"
  have len_rest: "length ?rest = sum_list (map (\<lambda>i. nat (dur ! i)) es)"
    by (simp add: length_concat comp_def)
  have d: "get_row dur (int i) = Inr (dur ! i)"
    using Cons.prems by (simp add: get_row_nat)
  have f: "loop_frames l tes fs i [0..<nat (dur ! i)] b = Inr (written b ?r)"
    using Cons.prems by (intro loop_frames_value [where n = n]) auto
  have l: "buf_len (written b ?r) n"
    using Cons.prems by (intro written_len) auto
  have "loop_emitters l tes fs dur es (written b ?r) = Inr (written (written b ?r) ?rest)"
    using Cons.prems by (intro Cons.IH l) (auto simp: written_c)
  also have "written (written b ?r) ?rest = written b (?r @ ?rest)"
    using Cons.prems by (intro written_written [where n = n]) (auto simp: len_rest)
  finally show ?case by (simp add: d f bnd_def)
qed

lemma upto_as_map: "[a..a + int n - 1] = map (\<lambda>j. a + int j) [0..<n]"
proof (induction n)
  case 0
  then show ?case by simp
next
  case (Suc n)
  have "[a..a + int (Suc n) - 1] = [a..a + int n - 1] @ [a + int n]"
    using upto_rec2 [of a "a + int n"] by simp
  then show ?case by (simp add: Suc)
qed

lemma upto_span: "a \<le> b \<Longrightarrow> [a..b - 1] = map (\<lambda>j. a + int j) [0..<nat (b - a)]"
  using upto_as_map [of a "nat (b - a)"] by simp

lemma sum_list_nat_nonneg:
  "list_all (\<lambda>d. 0 \<le> d) ds \<Longrightarrow> int (sum_list (map nat ds)) = sum_list ds"
  by (induction ds) auto

lemma te_aligned:
  "loose_aligned l \<Longrightarrow> te l = Inr (map2 (\<lambda>a b. f32 (a + b)) (t0 l) (ontime l))"
  by (simp add: te_def broadcast2_def loose_aligned_def)

text \<open>The row as the buffers hold it: the frame index is a float.\<close>

lemma rows_as_written:
  assumes a: "loose_aligned l" and i: "i < length (l_xyz l)"
    and f: "\<lfloor>t0 l ! i\<rfloor> \<le> \<lceil>te_at l i\<rceil>"
    and s: "\<bar>\<lfloor>t0 l ! i\<rfloor>\<bar> \<le> 8388608" "\<bar>\<lceil>te_at l i\<rceil>\<bar> \<le> 8388608"
    and x: "map round32 (l_xyz l ! i) = l_xyz l ! i"
  shows "map (row_of l (map2 (\<lambda>a b. f32 (a + b)) (t0 l) (ontime l))
                (map (\<lambda>t. real_of_int \<lfloor>t\<rfloor>) (t0 l)) i)
           [0..<nat (\<lceil>te_at l i\<rceil> - \<lfloor>t0 l ! i\<rfloor>)]
         = map (\<lambda>r. (fst r, fst (snd r), real_of_int (fst (snd (snd r))), snd (snd (snd r))))
             (frame_rows l i)"
proof -
  define lo where "lo = \<lfloor>t0 l ! i\<rfloor>"
  define hi where "hi = \<lceil>te_at l i\<rceil>"
  have tes: "map2 (\<lambda>a b. f32 (a + b)) (t0 l) (ontime l) ! i = te_at l i"
    using a i by (simp add: loose_aligned_def te_at_def)
  have fs: "map (\<lambda>t. real_of_int \<lfloor>t\<rfloor>) (t0 l) ! i = real_of_int lo"
    using a i by (simp add: loose_aligned_def lo_def)
  have r: "row_of l (map2 (\<lambda>a b. f32 (a + b)) (t0 l) (ontime l))
             (map (\<lambda>t. real_of_int \<lfloor>t\<rfloor>) (t0 l)) i j
           = (l_xyz l ! i,
              round32 (fmul (Fin (f32 (min (te_at l i) (real_of_int (lo + int j) + 1)
                                         - max (t0 l ! i) (real_of_int (lo + int j)))))
                         (intensity l ! i)),
              real_of_int (lo + int j), f32 (real_of_int (l_id l ! i)))"
    if j: "j < nat (hi - lo)" for j
  proof -
    have "j \<le> 2 ^ 24" using j s by (simp add: lo_def hi_def)
    then have 1: "f32 (real j) = real j" by (rule f32_nat)
    have "\<bar>lo + int j\<bar> \<le> 2 ^ 24" using j s by (simp add: lo_def hi_def)
    from f32_int [OF this] have 2: "f32 (real_of_int lo + real j) = real_of_int lo + real j"
      by simp
    have "\<bar>lo + int j + 1\<bar> \<le> 2 ^ 24" using j s by (simp add: lo_def hi_def)
    from f32_int [OF this] have 3: "f32 (real_of_int lo + real j + 1) = real_of_int lo + real j + 1"
      by simp
    show ?thesis by (simp add: row_of_def Let_def tes fs 1 2 3 x)
  qed
  have "[lo..hi - 1] = map (\<lambda>j. lo + int j) [0..<nat (hi - lo)]"
    using f by (intro upto_span) (simp add: lo_def hi_def)
  then show ?thesis
    using r by (simp add: frame_rows_def Let_def comp_def lo_def [symmetric] hi_def [symmetric])
qed

lemma distribute_value:
  assumes a: "loose_aligned l" and v: "float32_values l" and f: "frames_ok l"
    and s: "frames_small l"
  shows "distribute_framewise l =
           Inr (map fst (lowered_rows l), map (\<lambda>r. fst (snd r)) (lowered_rows l),
                map (\<lambda>r. real_of_int (fst (snd (snd r)))) (lowered_rows l),
                map (\<lambda>r. snd (snd (snd r))) (lowered_rows l))"
    and "int (length (lowered_rows l))
           = (\<Sum>i<length (l_xyz l). \<lceil>te_at l i\<rceil> - \<lfloor>t0 l ! i\<rfloor>)"
proof -
  define N where "N = length (l_xyz l)"
  define tes where "tes = map2 (\<lambda>a b. f32 (a + b)) (t0 l) (ontime l)"
  define fs where "fs = map (\<lambda>t. real_of_int \<lfloor>t\<rfloor>) (t0 l)"
  define dur where
    "dur = map2 (\<lambda>a b. to_int64 (f32 (a - b))) (map (\<lambda>t. real_of_int \<lceil>t\<rceil>) tes) fs"
  define buf where
    "buf = (\<lambda>r :: fl list \<times> fl \<times> int \<times> real.
              (fst r, fst (snd r), real_of_int (fst (snd (snd r))), snd (snd (snd r))))"
  have len: "length (t0 l) = N" "length (ontime l) = N" "length (intensity l) = N"
    "length (l_id l) = N" "length tes = N" "length fs = N" "length dur = N"
    using a by (simp_all add: loose_aligned_def N_def tes_def fs_def dur_def)
  have fi: "\<lfloor>t0 l ! i\<rfloor> \<le> \<lceil>te_at l i\<rceil>" if "i < N" for i
    using f that by (simp add: frames_ok_def list_all_iff N_def)
  have si: "\<bar>\<lfloor>t0 l ! i\<rfloor>\<bar> \<le> 8388608" "\<bar>\<lceil>te_at l i\<rceil>\<bar> \<le> 8388608" if "i < N" for i
    using s that by (simp_all add: frames_small_def list_all_iff N_def)
  have xi: "map round32 (l_xyz l ! i) = l_xyz l ! i" if "i < N" for i
  proof -
    have "list_all is_fl32 (l_xyz l ! i)"
      using v that by (simp add: float32_values_def list_all_length N_def)
    then show ?thesis by (simp add: list_all_iff map_idI is_fl32_round)
  qed
  have dur_i: "dur ! i = \<lceil>te_at l i\<rceil> - \<lfloor>t0 l ! i\<rfloor>" if "i < N" for i
  proof -
    have "\<bar>\<lceil>te_at l i\<rceil> - \<lfloor>t0 l ! i\<rfloor>\<bar> \<le> 2 ^ 24" using si [OF that] by simp
    from f32_int [OF this]
    have "f32 (real_of_int \<lceil>te_at l i\<rceil> - real_of_int \<lfloor>t0 l ! i\<rfloor>)
            = real_of_int (\<lceil>te_at l i\<rceil> - \<lfloor>t0 l ! i\<rfloor>)"
      by simp
    moreover have "to_int64 (real_of_int (\<lceil>te_at l i\<rceil> - \<lfloor>t0 l ! i\<rfloor>)) = \<lceil>te_at l i\<rceil> - \<lfloor>t0 l ! i\<rfloor>"
      using si [OF that] by (intro to_int64_int) simp_all
    ultimately show ?thesis
      using that len by (simp add: dur_def tes_def fs_def te_at_def)
  qed
  have nonneg: "list_all (\<lambda>d. 0 \<le> d) dur"
    using fi dur_i len by (auto simp: list_all_length)
  define rows where
    "rows = concat (map (\<lambda>i. map (row_of l tes fs i) [0..<nat (dur ! i)]) [0..<N])"
  have rows_eq: "rows = map buf (lowered_rows l)"
  proof -
    have "map (row_of l tes fs i) [0..<nat (dur ! i)] = map buf (frame_rows l i)" if "i < N" for i
      using rows_as_written [OF a _ fi [OF that] si [OF that] xi [OF that]] that
      by (simp add: dur_i tes_def fs_def N_def buf_def)
    then have "map (\<lambda>i. map (row_of l tes fs i) [0..<nat (dur ! i)]) [0..<N]
                 = map (\<lambda>i. map buf (frame_rows l i)) [0..<N]"
      by simp
    then show ?thesis
      by (simp only: rows_def lowered_rows_def N_def [symmetric] map_concat map_map comp_def)
  qed
  have len_rows: "length rows = sum_list (map nat dur)"
  proof -
    have "length rows = sum_list (map (\<lambda>i. nat (dur ! i)) [0..<N])"
      by (simp add: rows_def length_concat comp_def)
    also have "map (\<lambda>i. nat (dur ! i)) [0..<N] = map nat dur"
      using len by (intro nth_equalityI) auto
    finally show ?thesis .
  qed
  have n_int: "int (length rows) = sum_list dur"
    using sum_list_nat_nonneg [OF nonneg] by (simp add: len_rows)
  then have n_nat: "nat (sum_list dur) = length rows" and n0: "\<not> sum_list dur < 0"
    by linarith+
  define b0 where
    "b0 = \<lparr> xyz_b = replicate (length rows)
                       (replicate (case l_xyz l of [] \<Rightarrow> 0 | r # _ \<Rightarrow> length r) (Fin 0)),
             phot_b = replicate (length rows) (Fin 0), frame_ix_b = replicate (length rows) 0,
             id_b = replicate (length rows) 0, c_b = 0 \<rparr>"
  have bl: "buf_len b0 (length rows)" by (simp add: buf_len_def b0_def)
  have "loop_emitters l tes fs dur [0..<N] b0 = Inr (written b0 rows)"
    unfolding rows_def
  proof (intro loop_emitters_value [where n = "length rows"] bl)
    show "\<forall>i\<in>set [0..<N]. in_range l tes fs i \<and> i < length dur"
      using len by (simp add: in_range_def N_def)
    show "c_b b0 + sum_list (map (\<lambda>i. nat (dur ! i)) [0..<N]) \<le> length rows"
      by (simp add: b0_def rows_def length_concat comp_def)
  qed
  moreover have "written b0 rows =
      \<lparr> xyz_b = map fst rows, phot_b = map (\<lambda>r. fst (snd r)) rows,
        frame_ix_b = map (\<lambda>r. fst (snd (snd r))) rows,
        id_b = map (\<lambda>r. snd (snd (snd r))) rows, c_b = length rows \<rparr>"
    by (simp add: written_def b0_def overwrite_all)
  moreover have "broadcast2 (\<lambda>a b. to_int64 (f32 (a - b))) (map (\<lambda>t. real_of_int \<lceil>t\<rceil>) tes) fs
                   = Inr dur"
    using len by (simp add: broadcast2_def dur_def)
  ultimately have "distribute_framewise l =
           Inr (map fst rows, map (\<lambda>r. fst (snd r)) rows,
                map (\<lambda>r. fst (snd (snd r))) rows, map (\<lambda>r. snd (snd (snd r))) rows)"
    using n0 unfolding b0_def
    by (simp add: distribute_framewise_def te_aligned [OF a] bnd_def Let_def n_nat
        tes_def [symmetric] fs_def [symmetric] N_def [symmetric])
  then show "distribute_framewise l =
           Inr (map fst (lowered_rows l), map (\<lambda>r. fst (snd r)) (lowered_rows l),
                map (\<lambda>r. real_of_int (fst (snd (snd r)))) (lowered_rows l),
                map (\<lambda>r. snd (snd (snd r))) (lowered_rows l))"
    by (simp add: rows_eq buf_def comp_def)
  have "sum_list dur = sum_list (map (\<lambda>i. dur ! i) [0..<N])"
    using len by (simp add: map_nth_len)
  also have "\<dots> = (\<Sum>i<N. dur ! i)"
    by (simp add: interv_sum_list_conv_sum_set_nat atLeast0LessThan)
  also have "\<dots> = (\<Sum>i<N. \<lceil>te_at l i\<rceil> - \<lfloor>t0 l ! i\<rfloor>)"
    by (intro sum.cong) (auto simp: dur_i)
  finally show "int (length (lowered_rows l))
           = (\<Sum>i<length (l_xyz l). \<lceil>te_at l i\<rceil> - \<lfloor>t0 l ! i\<rfloor>)"
    using n_int by (simp add: rows_eq N_def)
qed

lemma lowered_rows_cols3: "cols3 (l_xyz l) \<Longrightarrow> cols3 (map fst (lowered_rows l))"
  by (auto simp: cols3_def lowered_rows_def frame_rows_def list_all_iff Let_def)

lemma lowered_rows_frames:
  assumes "frames_small l" "r \<in> set (lowered_rows l)"
  shows "to_int32 (real_of_int (fst (snd (snd r)))) = fst (snd (snd r))"
proof -
  from assms(2) obtain i where i: "i < length (l_xyz l)" and r: "r \<in> set (frame_rows l i)"
    by (auto simp: lowered_rows_def)
  from r have "\<lfloor>t0 l ! i\<rfloor> \<le> fst (snd (snd r))" "fst (snd (snd r)) \<le> \<lceil>te_at l i\<rceil> - 1"
    by (auto simp: frame_rows_def Let_def)
  moreover have "\<bar>\<lfloor>t0 l ! i\<rfloor>\<bar> \<le> 8388608" "\<bar>\<lceil>te_at l i\<rceil>\<bar> \<le> 8388608"
    using assms(1) i by (simp_all add: frames_small_def list_all_iff)
  ultimately show ?thesis by (intro to_int32_int) linarith+
qed

lemma nan_rows: "cols3 t \<Longrightarrow> map (map (\<lambda>_. NaN)) t = replicate (length t) [NaN, NaN, NaN]"
proof (induction t)
  case Nil
  then show ?case by simp
next
  case (Cons r t)
  then obtain a b c where "r = [a, b, c]"
    by (auto simp: cols3_def length_Suc_conv numeral_3_eq_3)
  with Cons show ?case by (simp add: cols3_def)
qed

lemma return_emitterset_value:
  assumes a: "loose_aligned l" and v: "float32_values l" and f: "frames_ok l"
    and s: "frames_small l" and c: "cols3 (l_xyz l)"
    and u: "case l_xy_unit l of None \<Rightarrow> True | Some u \<Rightarrow> u \<in> set xy_units"
  shows "\<exists>ws. return_emitterset l = Inr (ws, lowered_set l)"
proof -
  define rows where "rows = lowered_rows l"
  have c3: "cols3 (map fst rows)" using c by (simp add: rows_def lowered_rows_cols3)
  have p: "pad_xyz (map fst rows) = map fst rows" using c3 by (rule cols3_pad)
  have n: "map (map (\<lambda>_. NaN)) (map fst rows) = replicate (length rows) [NaN, NaN, NaN]"
    using nan_rows [OF c3] by simp
  have fr: "map (\<lambda>r. to_int32 (real_of_int (fst (snd (snd r))))) rows = map (\<lambda>r. fst (snd (snd r))) rows"
    using lowered_rows_frames [OF s] by (simp add: rows_def)
  show ?thesis
  proof (cases "rows = []")
    case True
    then show ?thesis
      by (simp add: return_emitterset_def distribute_value(1) [OF a v f s] bnd_def rows_def [symmetric]
          EmitterSet_init_def set_typed_def pad_xyz_def sanity_check_def same_shape_tensor_def
          same_dim_tensor_def len_def lowered_set_def)
  next
    case False
    then show ?thesis
      using u n fr
      by (auto simp: return_emitterset_def distribute_value(1) [OF a v f s] bnd_def rows_def [symmetric]
          EmitterSet_init_def set_typed_def p sanity_check_def same_shape_tensor_def comp_def
          same_dim_tensor_def len_def lowered_set_def Let_def split: option.splits)
  qed
qed

text \<open>
  C1. The claim takes the end time \<open>t0 + ontime\<close>, the photon count and the identity as
  exact numbers. The source computes them in float32. What holds, for a temporal
  distributor with one entry per emitter in every attribute and float32 values in its
  float tensors, whose emitters each have \<open>floor(t0) \<le> ceil(te)\<close> with both within
  \<open>2 ^ 23\<close> of 0, \<open>te\<close> being the float32 sum of \<open>t0\<close> and \<open>ontime\<close>:
  \<open>_distribute_framewise\<close> returns exactly the rows of \<open>lowered_rows\<close>, one per emitter and
  frame of \<open>[floor(t0), ceil(te))\<close>, with the emitter's position unchanged and as photon
  count the float32 product of the intensity and the float32 difference
  \<open>min(te, f + 1) - max(t0, f)\<close>; their number is the sum over the emitters of
  \<open>ceil(te) - floor(t0)\<close>; and with positions of three columns and a unit the validation
  accepts, \<open>return_emitterset\<close> returns the container of these rows. The identity of a row
  is the emitter's as it comes back from the float32 buffer and the cast to 32-bit
  integers.
\<close>

theorem lowering_rows:
  "loose_aligned l \<Longrightarrow> float32_values l \<Longrightarrow> frames_ok l \<Longrightarrow> frames_small l \<Longrightarrow>
   distribute_framewise l =
     Inr (map fst (lowered_rows l), map (\<lambda>r. fst (snd r)) (lowered_rows l),
          map (\<lambda>r. real_of_int (fst (snd (snd r)))) (lowered_rows l),
          map (\<lambda>r. snd (snd (snd r))) (lowered_rows l))
   \<and> int (length (lowered_rows l)) = (\<Sum>i<length (l_xyz l). \<lceil>te_at l i\<rceil> - \<lfloor>t0 l ! i\<rfloor>)
   \<and> (cols3 (l_xyz l) \<and> (case l_xy_unit l of None \<Rightarrow> True | Some u \<Rightarrow> u \<in> set xy_units) \<longrightarrow>
        (\<exists>ws. return_emitterset l = Inr (ws, lowered_set l)))"
  using distribute_value return_emitterset_value by blast

lemma loose_example_ok:
  "loose_aligned loose_example" "float32_values loose_example" "frames_ok loose_example"
  "frames_small loose_example" "cols3 (l_xyz loose_example)"
  "case l_xy_unit loose_example of None \<Rightarrow> True | Some u \<Rightarrow> u \<in> set xy_units"
  by (simp_all add: loose_aligned_def float32_defs frames_ok_def frames_small_def te_at_def
      cols3_def loose_example_def xy_units_def f32_examples upt_rec [of 0] upt_rec [of 1]
      upt_rec [of 2])

lemma loose_example_rows:
  "lowered_rows loose_example =
     [([Fin 1, Fin 2, Fin 3], Fin 50, 0, 0), ([Fin 1, Fin 2, Fin 3], Fin 50, 1, 0),
      ([Fin 4, Fin 5, Fin 6], Fin 5, 2, 1)]"
  by (simp add: lowered_rows_def frame_rows_def te_at_def loose_example_def Let_def f32_examples
      upt_rec [of 0] upt_rec [of 1] upt_rec [of 2] upto.simps)

theorem lowering_rows_witness:
  "loose_aligned loose_example \<and> float32_values loose_example \<and> frames_ok loose_example
   \<and> frames_small loose_example
   \<and> distribute_framewise loose_example =
       Inr ([[Fin 1, Fin 2, Fin 3], [Fin 1, Fin 2, Fin 3], [Fin 4, Fin 5, Fin 6]],
            [Fin 50, Fin 50, Fin 5], [0, 1, 2], [0, 0, 1])
   \<and> (\<exists>ws. return_emitterset loose_example =
        Inr (ws, \<lparr> xyz = [[Fin 1, Fin 2, Fin 3], [Fin 1, Fin 2, Fin 3], [Fin 4, Fin 5, Fin 6]],
                   phot = [Fin 50, Fin 50, Fin 5], frame_ix = [0, 1, 2], id_em = [0, 0, 1],
                   prob = [Fin 1, Fin 1, Fin 1], bg = [NaN, NaN, NaN],
                   xyz_cr = [[NaN, NaN, NaN], [NaN, NaN, NaN], [NaN, NaN, NaN]],
                   phot_cr = [NaN, NaN, NaN], bg_cr = [NaN, NaN, NaN],
                   xy_unit = Some ''px'', px_size = None, sorted_em = False \<rparr>))"
proof -
  have x: "l_xy_unit loose_example = Some ''px''"
    by (simp add: loose_example_def)
  show ?thesis
    using lowering_rows [OF loose_example_ok(1-4)] loose_example_ok
    by (simp add: loose_example_rows lowered_set_def Let_def numeral_3_eq_3 x to_int32_def
        trunc_def)
qed

text \<open>
  The claim as stated fails. An emitter that starts at 1 and is on for \<open>2 ^ -25\<close> is active
  on frame 1, the one frame of \<open>[floor(1), ceil(1 + 2 ^ -25))\<close>, so the claim asks for one
  row. The float32 sum of 1 and \<open>2 ^ -25\<close> is 1: the source finds no frame and returns no
  row. An emitter that starts at \<open>2 ^ 24\<close> and is on for 2 is active on the frames \<open>2 ^ 24\<close>
  and \<open>2 ^ 24 + 1\<close>, for the whole of each. The float32 sum of \<open>2 ^ 24\<close> and 1 is \<open>2 ^ 24\<close>:
  the source returns two rows on the frame \<open>2 ^ 24\<close>, with no photons. An emitter with a
  negative on-time that ends before the frame it starts in gives a negative number of
  rows, which \<open>torch.zeros\<close> refuses.
\<close>

theorem lowering_in_float32:
  "loose_aligned loose_short \<and> float32_values loose_short
   \<and> [\<lfloor>t0 loose_short ! 0\<rfloor>..\<lceil>t0 loose_short ! 0 + ontime loose_short ! 0\<rceil> - 1] = [1]
   \<and> distribute_framewise loose_short = Inr ([], [], [], [])
   \<and> return_emitterset loose_short =
       Inr ([], \<lparr> xyz = [], phot = [], frame_ix = [], id_em = [], prob = [], bg = [],
                   xyz_cr = [], phot_cr = [], bg_cr = [], xy_unit = Some ''px'',
                   px_size = None, sorted_em = False \<rparr>)
   \<and> loose_aligned loose_far \<and> float32_values loose_far
   \<and> [\<lfloor>t0 loose_far ! 0\<rfloor>..\<lceil>t0 loose_far ! 0 + ontime loose_far ! 0\<rceil> - 1]
        = [16777216, 16777217]
   \<and> distribute_framewise loose_far =
       Inr ([[Fin 1, Fin 2, Fin 3], [Fin 1, Fin 2, Fin 3]], [Fin 0, Fin 0],
            [16777216, 16777216], [0, 0])
   \<and> loose_aligned loose_negative \<and> float32_values loose_negative
   \<and> distribute_framewise loose_negative = Inl RuntimeError"
proof -
  have c: "\<lceil>33554433 / 33554432 :: real\<rceil> = 2"
    by (simp add: ceiling_eq_iff)
  have d: "distribute_framewise loose_short = Inr ([], [], [], [])"
    by (simp add: distribute_framewise_def te_def broadcast2_def loose_short_def bnd_def Let_def
        f32_below_half_ulp f32_examples to_int64_def trunc_def get_row_def)
  have u: "l_xy_unit loose_short = Some ''px''"
    by (simp add: loose_short_def)
  have r: "return_emitterset loose_short =
       Inr ([], \<lparr> xyz = [], phot = [], frame_ix = [], id_em = [], prob = [], bg = [],
                   xyz_cr = [], phot_cr = [], bg_cr = [], xy_unit = Some ''px'',
                   px_size = None, sorted_em = False \<rparr>)"
    by (simp add: return_emitterset_def d u bnd_def EmitterSet_init_def set_typed_def pad_xyz_def
        sanity_check_def same_shape_tensor_def same_dim_tensor_def len_def)
  have s: "loose_aligned loose_short \<and> float32_values loose_short
   \<and> [\<lfloor>t0 loose_short ! 0\<rfloor>..\<lceil>t0 loose_short ! 0 + ontime loose_short ! 0\<rceil> - 1] = [1]"
    by (simp add: loose_aligned_def float32_defs loose_short_def f32_examples c upto.simps)
  have e: "f32 16777216 = 16777216" "f32 16777218 = 16777218" "f32 (- 3) = - 3"
    using f32_int [of 16777216] f32_exact [of 8388609 1] f32_int [of "- 3"]
    by (simp_all add: pow2_def)
  have df: "distribute_framewise loose_far =
       Inr ([[Fin 1, Fin 2, Fin 3], [Fin 1, Fin 2, Fin 3]], [Fin 0, Fin 0],
            [16777216, 16777216], [0, 0])"
    by (simp add: distribute_framewise_def te_def broadcast2_def loose_far_def bnd_def Let_def
        write_row_def set_row_def get_row_def to_int64_def trunc_def e f32_examples
        f32_odd_above_mantissa numeral_2_eq_2)
  have f: "loose_aligned loose_far \<and> float32_values loose_far
   \<and> [\<lfloor>t0 loose_far ! 0\<rfloor>..\<lceil>t0 loose_far ! 0 + ontime loose_far ! 0\<rceil> - 1]
        = [16777216, 16777217]"
    by (simp add: loose_aligned_def float32_defs loose_far_def f32_examples e upto.simps)
  have n: "loose_aligned loose_negative \<and> float32_values loose_negative
   \<and> distribute_framewise loose_negative = Inl RuntimeError"
    by (simp add: loose_aligned_def float32_defs loose_negative_def distribute_framewise_def
        te_def broadcast2_def bnd_def Let_def to_int64_def trunc_def e f32_examples)
  show ?thesis using s d r df f n by simp
qed

text \<open>
  The identity goes through a float32 buffer and a cast to 32-bit integers. The identity
  \<open>2 ^ 24 + 1\<close> comes back as \<open>2 ^ 24\<close>.
\<close>

lemma lowering_rounds_identity:
  "\<exists>ws em. return_emitterset loose_large_id = Inr (ws, em) \<and> l_id loose_large_id = [16777217]
           \<and> id_em em = [16777216]"
proof -
  have h: "loose_aligned loose_large_id" "float32_values loose_large_id"
    "frames_ok loose_large_id" "frames_small loose_large_id" "cols3 (l_xyz loose_large_id)"
    "case l_xy_unit loose_large_id of None \<Rightarrow> True | Some u \<Rightarrow> u \<in> set xy_units"
    by (simp_all add: loose_aligned_def float32_defs frames_ok_def frames_small_def te_at_def
        cols3_def loose_large_id_def xy_units_def f32_examples)
  have "lowered_rows loose_large_id = [([Fin 1, Fin 2, Fin 3], Fin 100, 0, 16777216)]"
    by (simp add: lowered_rows_def frame_rows_def te_at_def loose_large_id_def Let_def f32_examples
        f32_odd_above_mantissa upto.simps)
  then have "id_em (lowered_set loose_large_id) = [16777216]"
    by (simp add: lowered_set_def Let_def to_int32_def trunc_def)
  then show ?thesis
    using return_emitterset_value [OF h] by (auto simp: loose_large_id_def)
qed

section \<open>The alignment invariant\<close>

lemma init_validated_lengths:
  assumes "EmitterSet_init xyz0 phot0 frame0 id0 prob0 bg0 xyz_cr0 phot_cr0 bg_cr0 True u p = Inr (ws, em)"
  shows "checked_lengths em"
proof -
  define self where "self = (set_typed xyz0 phot0 frame0 id0 prob0 bg0 xyz_cr0 phot_cr0 bg_cr0)
                   \<lparr> sorted_em := False, xy_unit := u, px_size := p \<rparr>"
  from assms have s: "sanity_check self False = Inr ws" and e: "em = self"
    by (auto simp: EmitterSet_init_def self_def [symmetric] bnd_def Let_def split: sum.splits)
  from s have "same_shape_tensor [length (xyz self), length (phot self), length (frame_ix self),
            length (id_em self), length (bg self), length (xyz_cr self), length (phot_cr self),
            length (bg_cr self)]"
    by (auto simp: sanity_check_def split: if_splits)
  then show ?thesis
    by (simp add: same_shape_tensor_def checked_lengths_def e len_def)
qed

lemma pad_cols3: "cols3 t \<or> cols2 t \<Longrightarrow> cols3 (pad_xyz t)"
  by (cases t) (auto simp: pad_xyz_def cols3_def cols2_def list_all_iff)

lemma length_pad: "length (pad_xyz t) = length t"
  by (cases t) (auto simp: pad_xyz_def)

lemma pad_nil: "pad_xyz t = [] \<longleftrightarrow> t = []"
  using length_pad [of t] by (metis length_0_conv)

lemma init_validated_aligned:
  assumes i: "EmitterSet_init xyz0 phot0 frame0 id0 prob0 bg0 xyz_cr0 phot_cr0 bg_cr0 True u p = Inr (ws, em)"
    and x: "cols3 xyz0 \<or> cols2 xyz0"
    and pr: "case prob0 of None \<Rightarrow> True | Some q \<Rightarrow> length q = length xyz0"
    and cr: "case xyz_cr0 of None \<Rightarrow> True | Some c \<Rightarrow> cols3 c"
  shows "aligned em"
proof -
  have l: "checked_lengths em" using i by (rule init_validated_lengths)
  from i have e: "em = (set_typed xyz0 phot0 frame0 id0 prob0 bg0 xyz_cr0 phot_cr0 bg_cr0)
                   \<lparr> sorted_em := False, xy_unit := u, px_size := p \<rparr>"
    by (auto simp: EmitterSet_init_def bnd_def Let_def split: sum.splits)
  have c: "cols3 (xyz em)"
    using pad_cols3 [OF x] by (simp add: e set_typed_def Let_def cols3_def)
  have n: "len em = length xyz0"
    by (auto simp: e set_typed_def Let_def len_def length_pad pad_nil)
  have fl: "length (frame_ix em) = len em" using l by (simp add: checked_lengths_def)
  have p: "length (prob em) = len em"
  proof (cases "xyz0 = []")
    case True
    then show ?thesis by (simp add: e set_typed_def Let_def len_def pad_xyz_def)
  next
    case False
    then have f: "frame_ix em = frame0" "prob em = (case prob0 of Some q \<Rightarrow> q | None \<Rightarrow> replicate (length frame0) (Fin 1))"
      by (simp_all add: e set_typed_def Let_def pad_nil)
    show ?thesis using pr fl n by (simp add: f split: option.splits)
  qed
  have xc: "cols3 (xyz_cr em)"
  proof (cases "xyz0 = []")
    case True
    then show ?thesis by (simp add: e set_typed_def Let_def pad_xyz_def cols3_def)
  next
    case False
    then have f: "xyz_cr em = (case xyz_cr0 of Some c \<Rightarrow> c | None \<Rightarrow> map (map (\<lambda>_. NaN)) (pad_xyz xyz0))"
      by (simp add: e set_typed_def Let_def pad_nil)
    show ?thesis using cr pad_cols3 [OF x] by (auto simp: f cols3_def list_all_iff split: option.splits)
  qed
  show ?thesis using l c p xc by (simp add: aligned_def checked_lengths_def)
qed

lemma init_validated_cols:
  assumes i: "EmitterSet_init xyz0 phot0 frame0 id0 prob0 bg0 xyz_cr0 phot_cr0 bg_cr0 True u p = Inr (ws, em)"
  shows "cols3 xyz0 \<or> cols2 xyz0 \<Longrightarrow> cols3 (xyz em)"
    and "(case xyz_cr0 of None \<Rightarrow> cols3 xyz0 \<or> cols2 xyz0 | Some c \<Rightarrow> cols3 c) \<Longrightarrow> cols3 (xyz_cr em)"
proof -
  from i have e: "em = (set_typed xyz0 phot0 frame0 id0 prob0 bg0 xyz_cr0 phot_cr0 bg_cr0)
                   \<lparr> sorted_em := False, xy_unit := u, px_size := p \<rparr>"
    by (auto simp: EmitterSet_init_def bnd_def Let_def split: sum.splits)
  show "cols3 (xyz em)" if "cols3 xyz0 \<or> cols2 xyz0"
    using pad_cols3 [OF that] by (simp add: e set_typed_def Let_def cols3_def)
  show "cols3 (xyz_cr em)"
    if cr: "case xyz_cr0 of None \<Rightarrow> cols3 xyz0 \<or> cols2 xyz0 | Some c \<Rightarrow> cols3 c"
  proof (cases "xyz0 = []")
    case True
    then show ?thesis by (simp add: e set_typed_def Let_def pad_xyz_def cols3_def)
  next
    case False
    then have f: "xyz_cr em = (case xyz_cr0 of Some c \<Rightarrow> c | None \<Rightarrow> map (map (\<lambda>_. NaN)) (pad_xyz xyz0))"
      by (simp add: e set_typed_def Let_def pad_nil)
    show ?thesis
    proof (cases xyz_cr0)
      case None
      with cr have "cols3 (pad_xyz xyz0)" by (simp add: pad_cols3)
      then show ?thesis by (simp add: f None cols3_def list_all_iff)
    next
      case (Some c)
      with cr show ?thesis by (simp add: f)
    qed
  qed
qed

lemma init_empty:
  "\<exists>em. EmitterSet_init [] phot0 frame0 id0 prob0 bg0 xyz_cr0 phot_cr0 bg_cr0 True u p = Inr ([], em)
        \<and> len em = 0 \<and> aligned em"
  by (simp add: EmitterSet_init_def set_typed_def pad_xyz_def sanity_check_def same_shape_tensor_def
      same_dim_tensor_def len_def bnd_def aligned_def cols3_def)

lemma index_rows_sub: "index_rows xs js = Inr ys \<Longrightarrow> length ys = length js \<and> set ys \<subseteq> set xs"
proof (induction js arbitrary: ys)
  case Nil
  then show ?case by simp
next
  case (Cons j js)
  then obtain v vs where v: "pick_row xs j = Inr v" and vs: "index_rows xs js = Inr vs" and y: "ys = v # vs"
    by (auto simp: bnd_def split: sum.splits)
  have "v \<in> set xs" using v by (auto simp: pick_row_def get_row_def split: if_splits)
  with Cons.IH [OF vs] y show ?case by auto
qed

lemma mask_count: "length xs = length m \<Longrightarrow> length (filter snd (zip xs m)) = length (filter (\<lambda>b. b) m)"
  by (induction xs m rule: list_induct2) auto

lemma mask_rows_sub:
  "mask_rows xs m = Inr ys \<Longrightarrow> length ys = length (filter (\<lambda>b. b) m) \<and> set ys \<subseteq> set xs"
proof -
  assume m: "mask_rows xs m = Inr ys"
  then have y: "ys = map fst (filter snd (zip xs m))" and l: "length xs = length m"
    by (auto simp: mask_rows_def split: if_splits)
  have "set ys \<subseteq> set xs"
    unfolding y by (auto dest: set_zip_leftD)
  moreover have "length ys = length (filter (\<lambda>b. b) m)"
    unfolding y using l by (simp add: mask_count)
  ultimately show ?thesis by simp
qed

lemma take_ix_sub: "take_ix xs ix = Inr ys \<Longrightarrow> length ys = ix_count ix \<and> set ys \<subseteq> set xs"
proof (cases ix)
  case (IntIx i)
  assume "take_ix xs ix = Inr ys"
  then have "index_rows xs [i] = Inr ys" by (simp add: take_ix_def IntIx)
  from index_rows_sub [OF this] show ?thesis by (simp add: ix_count_def IntIx)
next
  case (ListIx js)
  assume "take_ix xs ix = Inr ys"
  then have "index_rows xs js = Inr ys" by (simp add: take_ix_def ListIx)
  from index_rows_sub [OF this] show ?thesis by (simp add: ix_count_def ListIx)
next
  case (TensorIx js)
  assume "take_ix xs ix = Inr ys"
  then have "index_rows xs js = Inr ys" by (simp add: take_ix_def TensorIx)
  from index_rows_sub [OF this] show ?thesis by (simp add: ix_count_def TensorIx)
next
  case (MaskIx m)
  assume "take_ix xs ix = Inr ys"
  then have "mask_rows xs m = Inr ys" by (simp add: take_ix_def MaskIx)
  from mask_rows_sub [OF this] show ?thesis by (simp add: ix_count_def MaskIx)
qed

lemma aligned_fields:
  assumes "length ph = length x" "length f = length x" "length i = length x" "length pr = length x"
    "length b = length x" "length xc = length x" "length pc = length x" "length bc = length x"
    "cols3 x" "cols3 xc"
  shows "aligned \<lparr> xyz = x, phot = ph, frame_ix = f, id_em = i, prob = pr, bg = b, xyz_cr = xc,
                   phot_cr = pc, bg_cr = bc, xy_unit = u, px_size = p, sorted_em = s \<rparr>"
  using assms by (simp add: aligned_def len_def)

lemma init_fields_aligned:
  assumes a: "length ph = length x" "length f = length x" "length i = length x" "length pr = length x"
    "length b = length x" "length xc = length x" "length pc = length x" "length bc = length x"
    "cols3 x" "cols3 xc"
    and e: "EmitterSet_init x ph f (Some i) (Some pr) (Some b) (Some xc) (Some pc) (Some bc) sanity u p
            = Inr (ws, em)"
  shows "aligned em"
proof -
  define c where "c = \<lparr> xyz = x, phot = ph, frame_ix = f, id_em = i, prob = pr, bg = b, xyz_cr = xc,
                   phot_cr = pc, bg_cr = bc, xy_unit = u, px_size = p, sorted_em = False \<rparr>"
  have ac: "aligned c" unfolding c_def using a by (rule aligned_fields)
  have "set_typed x ph f (Some i) (Some pr) (Some b) (Some xc) (Some pc) (Some bc)
          = c \<lparr> xy_unit := None, px_size := None, sorted_em := False \<rparr>"
    using set_typed_aligned [OF ac] by (simp add: c_def)
  with e have "em = c"
    by (auto simp: EmitterSet_init_def bnd_def c_def Let_def split: if_splits sum.splits)
  with ac show ?thesis by simp
qed

lemma get_subset_aligned:
  assumes a: "aligned self" and g: "get_subset self ix = Inr em"
  shows "aligned em"
proof -
  define jx where "jx = single_element ix"
  from g obtain x ph f i pr b xc pc bc ws where
    t: "take_ix (xyz self) jx = Inr x" "take_ix (phot self) jx = Inr ph"
       "take_ix (frame_ix self) jx = Inr f" "take_ix (id_em self) jx = Inr i"
       "take_ix (prob self) jx = Inr pr" "take_ix (bg self) jx = Inr b"
       "take_ix (xyz_cr self) jx = Inr xc" "take_ix (phot_cr self) jx = Inr pc"
       "take_ix (bg_cr self) jx = Inr bc"
    and e: "EmitterSet_init x ph f (Some i) (Some pr) (Some b) (Some xc) (Some pc) (Some bc) False
              (xy_unit self) (px_size self) = Inr (ws, em)"
    by (auto simp: get_subset_def jx_def [symmetric] bnd_def Let_def split: sum.splits)
  note s = t [THEN take_ix_sub]
  have "cols3 x" "cols3 xc"
    using a s(1,7) by (auto simp: aligned_def cols3_def list_all_iff)
  then show ?thesis
    using s by (intro init_fields_aligned [OF _ _ _ _ _ _ _ _ _ _ e]) auto
qed

lemma bnd_InrE:
  assumes "bnd m f = Inr y"
  obtains v where "m = Inr v" "f v = Inr y"
  using assms by (cases m) (auto simp: bnd_def)

lemma concat_len:
  "\<forall>e\<in>set ems. length (g e) = len e \<Longrightarrow> length (concat (map g ems)) = sum_list (map len ems)"
  by (induction ems) auto

lemma shifted_frames_lengths:
  "shifted_frames ems shift js = Inr fs \<Longrightarrow>
   map length fs = map (\<lambda>i. length (frame_ix (ems ! i))) js"
proof (induction js arbitrary: fs)
  case Nil
  then show ?case by simp
next
  case (Cons j js)
  then obtain s rest where "shifted_frames ems shift js = Inr rest"
    and "fs = map (\<lambda>f. f + s) (frame_ix (ems ! j)) # rest"
    by (auto simp: bnd_def split: sum.splits)
  with Cons.IH show ?case by simp
qed

lemma cat_steps:
  "\<not> (remap \<noteq> None \<and> step \<noteq> None) \<Longrightarrow>
   cat ems remap step =
     bnd (torch_cat2 (map xyz ems)) (\<lambda>xyz1.
     bnd (torch_cat (map phot ems)) (\<lambda>phot1.
     bnd (shifted_frames ems
            (case remap of
               Some r \<Rightarrow> r
             | None \<Rightarrow>
                 (case step of
                    Some st \<Rightarrow> map (\<lambda>i. int i * st) [0..<length ems]
                  | None \<Rightarrow> replicate (length ems) 0))
            [0..<length ems]) (\<lambda>fs.
     bnd (torch_cat fs) (\<lambda>frame1.
     bnd (torch_cat (map id_em ems)) (\<lambda>id1.
     bnd (torch_cat (map prob ems)) (\<lambda>prob1.
     bnd (torch_cat (map bg ems)) (\<lambda>bg1.
     bnd (torch_cat2 (map xyz_cr ems)) (\<lambda>xyz_cr1.
     bnd (torch_cat (map phot_cr ems)) (\<lambda>phot_cr1.
     bnd (torch_cat (map bg_cr ems)) (\<lambda>bg_cr1.
       EmitterSet_init xyz1 phot1 frame1 (Some id1) (Some prob1) (Some bg1) (Some xyz_cr1)
         (Some phot_cr1) (Some bg_cr1) True
         (first_set (map xy_unit ems)) (first_set (map px_size ems))))))))))))"
  unfolding cat_def Let_def by (rule if_not_P)

lemma cat_both: "remap \<noteq> None \<and> step \<noteq> None \<Longrightarrow> \<exists>e. cat ems remap step = Inl e"
  unfolding cat_def Let_def by (intro exI, rule if_P)

lemma torch_cat_value: "torch_cat ts = Inr t \<Longrightarrow> t = concat ts"
  by (simp add: torch_cat_def split: if_splits)

lemma torch_cat2_value: "torch_cat2 ts = Inr t \<Longrightarrow> t = concat ts"
  by (simp add: torch_cat2_def split: if_splits)

lemma cat_aligned:
  assumes a: "list_all aligned ems" and c: "cat ems remap step = Inr (ws, em)"
  shows "aligned em"
proof -
  have nb: "\<not> (remap \<noteq> None \<and> step \<noteq> None)"
  proof
    assume "remap \<noteq> None \<and> step \<noteq> None"
    from cat_both [OF this] obtain e where "cat ems remap step = Inl e" by blast
    with c show False by simp
  qed
  have al: "\<forall>e\<in>set ems. aligned e" using a by (simp add: list_all_iff)
  have n: "length (concat (map xyz ems)) = sum_list (map len ems)"
    by (intro concat_len) (simp add: len_def)
  have l: "length (concat (map phot ems)) = sum_list (map len ems)"
    "length (concat (map id_em ems)) = sum_list (map len ems)"
    "length (concat (map prob ems)) = sum_list (map len ems)"
    "length (concat (map bg ems)) = sum_list (map len ems)"
    "length (concat (map xyz_cr ems)) = sum_list (map len ems)"
    "length (concat (map phot_cr ems)) = sum_list (map len ems)"
    "length (concat (map bg_cr ems)) = sum_list (map len ems)"
    using al by (auto intro!: concat_len simp: aligned_def)
  have c3: "cols3 (concat (map xyz ems))" "cols3 (concat (map xyz_cr ems))"
    using al by (auto simp: aligned_def cols3_def list_all_iff)
  from c [unfolded cat_steps [OF nb]] show ?thesis
  proof (elim bnd_InrE)
    fix x ph fs fr i pr b xc pc bc
    assume t: "torch_cat2 (map xyz ems) = Inr x" "torch_cat (map phot ems) = Inr ph"
       "torch_cat fs = Inr fr" "torch_cat (map id_em ems) = Inr i"
       "torch_cat (map prob ems) = Inr pr" "torch_cat (map bg ems) = Inr b"
       "torch_cat2 (map xyz_cr ems) = Inr xc" "torch_cat (map phot_cr ems) = Inr pc"
       "torch_cat (map bg_cr ems) = Inr bc"
    and fs: "shifted_frames ems
            (case remap of
               Some r \<Rightarrow> r
             | None \<Rightarrow>
                 (case step of
                    Some st \<Rightarrow> map (\<lambda>i. int i * st) [0..<length ems]
                  | None \<Rightarrow> replicate (length ems) 0))
            [0..<length ems] = Inr fs"
    and e: "EmitterSet_init x ph fr (Some i) (Some pr) (Some b) (Some xc) (Some pc) (Some bc) True
              (first_set (map xy_unit ems)) (first_set (map px_size ems)) = Inr (ws, em)"
    note v = t(1,7) [THEN torch_cat2_value] t(2,3,4,5,6,8,9) [THEN torch_cat_value]
    have "map (\<lambda>i. length (frame_ix (ems ! i))) [0..<length ems]
            = map (\<lambda>e. length (frame_ix e)) ems"
      by (rule nth_equalityI) auto
    then have "map length fs = map (\<lambda>e. length (frame_ix e)) ems"
      using shifted_frames_lengths [OF fs] by simp
    then have "length (concat fs) = sum_list (map (\<lambda>e. length (frame_ix e)) ems)"
      by (simp add: length_concat)
    also have "\<dots> = sum_list (map len ems)"
      using al by (intro arg_cong [where f = sum_list] map_cong) (auto simp: aligned_def)
    finally have f: "length (concat fs) = sum_list (map len ems)" .
    show "aligned em"
    proof (rule init_fields_aligned [OF _ _ _ _ _ _ _ _ _ _ e])
      show "length ph = length x" "length fr = length x" "length i = length x"
        "length pr = length x" "length b = length x" "length xc = length x"
        "length pc = length x" "length bc = length x"
        by (simp_all only: v l n f)
      show "cols3 x" "cols3 xc" by (simp_all only: v c3)
    qed
  qed
qed

lemma permuted_aligned:
  assumes a: "aligned self" and m: "mset ix = mset [0..<len self]"
  shows "aligned (permuted self ix)"
proof -
  have l: "length ix = len self" using mset_eq_length [OF m] by simp
  have s: "set ix = {0..<len self}" using mset_eq_setD [OF m] by simp
  have "cols3 (map (\<lambda>i. xyz self ! i) ix)" "cols3 (map (\<lambda>i. xyz_cr self ! i) ix)"
    using a s by (auto simp: aligned_def cols3_def list_all_iff len_def)
  then show ?thesis using l by (simp add: aligned_def permuted_def len_def)
qed

lemma sort_aligned:
  assumes c: "sort_contract ts" and a: "aligned self"
  shows "sort_by_frame_inplace ts self = Inr (permuted self (snd (ts (frame_ix self))))"
    and "sort_by_frame ts self = Inr (permuted self (snd (ts (frame_ix self))))"
    and "aligned (permuted self (snd (ts (frame_ix self))))"
proof -
  have n: "length (frame_ix self) = len self" using a by (simp add: aligned_def)
  show 1: "sort_by_frame_inplace ts self = Inr (permuted self (snd (ts (frame_ix self))))"
    using a by (intro sort_inplace_value [OF c]) (auto simp: aligned_def len_def)
  have "sort_by_frame_inplace ts (self \<lparr> sorted_em := False \<rparr>)
          = Inr (permuted (self \<lparr> sorted_em := False \<rparr>) (snd (ts (frame_ix self))))"
    using a sort_inplace_value [OF c, of "self \<lparr> sorted_em := False \<rparr>"]
    by (auto simp: aligned_def len_def)
  then show "sort_by_frame ts self = Inr (permuted self (snd (ts (frame_ix self))))"
    by (simp add: sort_by_frame_def clone_aligned [OF a] bnd_def permuted_def)
  have "mset (snd (ts (frame_ix self))) = mset [0..<len self]"
    using c n by (simp add: sort_contract_def)
  then show "aligned (permuted self (snd (ts (frame_ix self))))"
    by (rule permuted_aligned [OF a])
qed

lemma each_row_pres:
  assumes "\<And>r r'. P r \<Longrightarrow> f r = Inr r' \<Longrightarrow> Q r'"
  shows "list_all P t \<Longrightarrow> each_row f t = Inr t' \<Longrightarrow> list_all Q t' \<and> length t' = length t"
proof (induction t arbitrary: t')
  case Nil
  then show ?case by simp
next
  case (Cons r t)
  then obtain v vs where v: "f r = Inr v" and vs: "each_row f t = Inr vs" and t': "t' = v # vs"
    by (auto simp: bnd_def split: sum.splits)
  have "Q v" using assms Cons.prems(1) v by auto
  with Cons.IH [OF _ vs] Cons.prems(1) t' show ?case by simp
qed

lemma convert_coordinates_cols3:
  assumes c: "cols3 (xyz self)" and ax: "case axis of None \<Rightarrow> True | Some a \<Rightarrow> length a = 3"
    and r: "convert_coordinates self factor shift axis = Inr t"
  shows "cols3 t \<and> length t = length (xyz self)"
proof -
  from r obtain t1 t2 where
    1: "(case factor of None \<Rightarrow> Inr (xyz self)
          | Some f0 \<Rightarrow> (let f = (if length f0 = 2 then f0 @ [Fin 1] else f0)
               in each_row (\<lambda>r. broadcast2 fmul r f) (xyz self))) = Inr t1"
    and 2: "(case shift of None \<Rightarrow> Inr t1 | Some sh \<Rightarrow> each_row (\<lambda>r. add_inplace r sh) t1) = Inr t2"
    and 3: "(case axis of None \<Rightarrow> Inr t2 | Some a \<Rightarrow> each_row (\<lambda>r. index_rows r a) t2) = Inr t"
    by (auto simp: convert_coordinates_def bnd_def split: sum.splits)
  have b: "length (r :: fl list) = 3 \<Longrightarrow> broadcast2 fmul r f = Inr r' \<Longrightarrow> length r' = 3" for r f r'
    by (auto simp: broadcast2_def split: if_splits)
  have d: "length (r :: fl list) = 3 \<Longrightarrow> add_inplace r v = Inr r' \<Longrightarrow> length r' = 3" for r v r'
    by (auto simp: add_inplace_def split: if_splits)
  have s1: "cols3 t1 \<and> length t1 = length (xyz self)"
  proof (cases factor)
    case None
    with 1 c show ?thesis by simp
  next
    case (Some f0)
    with 1 have "each_row (\<lambda>r. broadcast2 fmul r (if length f0 = 2 then f0 @ [Fin 1] else f0)) (xyz self) = Inr t1"
      by (simp add: Let_def)
    from each_row_pres [where P = "\<lambda>r. length r = 3" and Q = "\<lambda>r. length r = 3", OF b _ this] c
    show ?thesis by (simp add: cols3_def)
  qed
  have s2: "cols3 t2 \<and> length t2 = length (xyz self)"
  proof (cases shift)
    case None
    with 2 s1 show ?thesis by simp
  next
    case (Some sh)
    with 2 have "each_row (\<lambda>r. add_inplace r sh) t1 = Inr t2" by simp
    from each_row_pres [where P = "\<lambda>r. length r = 3" and Q = "\<lambda>r. length r = 3", OF d _ this] s1
    show ?thesis by (simp add: cols3_def)
  qed
  show ?thesis
  proof (cases axis)
    case None
    with 3 s2 show ?thesis by simp
  next
    case (Some a)
    with 3 have e: "each_row (\<lambda>r. index_rows r a) t2 = Inr t" by simp
    have "length r' = 3" if "index_rows r a = Inr r'" for r r' :: "fl list"
      using index_rows_sub [OF that] ax Some by simp
    from each_row_pres [where P = "\<lambda>r. True" and Q = "\<lambda>r. length r = 3", OF this _ e] s2
    show ?thesis by (simp add: cols3_def list_all_iff)
  qed
qed

lemma convert_em_aligned:
  assumes a: "aligned self" and ax: "case axis of None \<Rightarrow> True | Some a \<Rightarrow> length a = 3"
    and r: "convert_em self factor shift axis frame_shift new_xy_unit = Inr em"
  shows "aligned em"
proof -
  define emn where "emn = self \<lparr> sorted_em := False \<rparr>"
  have an: "aligned emn" using a by (simp add: emn_def aligned_def len_def)
  from r obtain t where t: "convert_coordinates emn factor shift axis = Inr t"
    and e: "em = (let emn1 = emn \<lparr> xyz := t \<rparr>;
            emn2 = (case frame_shift of
                      None \<Rightarrow> emn1
                    | Some d \<Rightarrow> emn1 \<lparr> frame_ix := map (\<lambda>f. f + d) (frame_ix emn1) \<rparr>);
            emn3 = (case new_xy_unit of
                      None \<Rightarrow> emn2
                    | Some u \<Rightarrow> emn2 \<lparr> xy_unit := Some u \<rparr>)
        in emn3)"
    by (auto simp: convert_em_def clone_aligned [OF a] emn_def bnd_def Let_def split: sum.splits)
  have "cols3 (xyz emn)" using an by (simp add: aligned_def)
  from convert_coordinates_cols3 [OF this ax t] have "cols3 t" "length t = len emn"
    by (simp_all add: len_def)
  then show ?thesis
    using an by (auto simp: e aligned_def len_def Let_def split: option.splits)
qed

text \<open>
  The loop of \<open>_distribute_framewise\<close> keeps the lengths of the four output tensors, and
  the rows of the position tensor at three columns.
\<close>

lemma get_row_mem: "get_row xs i = Inr v \<Longrightarrow> v \<in> set xs"
  by (auto simp: get_row_def split: if_splits)

lemma set_row_sub:
  "set_row xs c v = Inr ys \<Longrightarrow> length ys = length xs \<and> set ys \<subseteq> insert v (set xs)"
  using set_update_subset_insert [of xs c v] by (auto simp: set_row_def split: if_splits)

lemma write_row_inv:
  assumes w: "write_row l tes fs i j b = Inr b'" and c: "cols3 (l_xyz l)"
    and n: "buf_len b n" and x: "cols3 (xyz_b b)"
  shows "buf_len b' n \<and> cols3 (xyz_b b')"
proof -
  from w [unfolded write_row_def Let_def] show ?thesis
  proof (elim bnd_InrE)
    fix xr xyz1 fsv frame1 idv id1 tei f t0i inten phot1
    assume g: "get_row (l_xyz l) (int i) = Inr xr"
      and s1: "set_row (xyz_b b) (c_b b) (map round32 xr) = Inr xyz1"
      and s2: "set_row (frame_ix_b b) (c_b b) (f32 (fsv + f32 (real j))) = Inr frame1"
      and s3: "set_row (id_b b) (c_b b) (f32 (real_of_int idv)) = Inr id1"
      and s4: "set_row (phot_b b) (c_b b)
                 (round32 (fmul (Fin (f32 (min tei (f32 (f + 1)) - max t0i f))) inten)) = Inr phot1"
      and r: "Inr \<lparr> xyz_b = xyz1, phot_b = phot1, frame_ix_b = frame1, id_b = id1,
                     c_b = c_b b + 1 \<rparr> = Inr b'"
    have "length xr = 3"
      using get_row_mem [OF g] c by (simp add: cols3_def list_all_iff)
    then have "cols3 xyz1"
      using set_row_sub [OF s1] x by (auto simp: cols3_def list_all_iff)
    moreover have "length xyz1 = n" "length frame1 = n" "length id1 = n" "length phot1 = n"
      using set_row_sub [OF s1] set_row_sub [OF s2] set_row_sub [OF s3] set_row_sub [OF s4] n
      by (simp_all add: buf_len_def)
    ultimately show ?thesis using r by (auto simp: buf_len_def)
  qed
qed

lemma loop_frames_inv:
  "loop_frames l tes fs i js b = Inr b' \<Longrightarrow> cols3 (l_xyz l) \<Longrightarrow> buf_len b n \<Longrightarrow>
   cols3 (xyz_b b) \<Longrightarrow> buf_len b' n \<and> cols3 (xyz_b b')"
proof (induction js arbitrary: b)
  case Nil
  then show ?case by simp
next
  case (Cons j js)
  from Cons.prems(1) obtain b1 where w: "write_row l tes fs i j b = Inr b1"
    and r: "loop_frames l tes fs i js b1 = Inr b'"
    by (auto elim: bnd_InrE)
  from write_row_inv [OF w Cons.prems(2,3,4)] Cons.IH [OF r Cons.prems(2)] show ?case by blast
qed

lemma loop_emitters_inv:
  "loop_emitters l tes fs dur es b = Inr b' \<Longrightarrow> cols3 (l_xyz l) \<Longrightarrow> buf_len b n \<Longrightarrow>
   cols3 (xyz_b b) \<Longrightarrow> buf_len b' n \<and> cols3 (xyz_b b')"
proof (induction es arbitrary: b)
  case Nil
  then show ?case by simp
next
  case (Cons i es)
  from Cons.prems(1) obtain d b1 where "loop_frames l tes fs i [0..<nat d] b = Inr b1"
    and r: "loop_emitters l tes fs dur es b1 = Inr b'"
    by (auto elim!: bnd_InrE)
  from loop_frames_inv [OF this(1) Cons.prems(2,3,4)] Cons.IH [OF r Cons.prems(2)]
  show ?case by blast
qed

lemma distribute_aligned:
  assumes d: "distribute_framewise l = Inr (x, p, f, i)" and a: "loose_aligned l"
    and c: "cols3 (l_xyz l)"
  shows "length p = length x \<and> length f = length x \<and> length i = length x \<and> cols3 x"
proof -
  define tes where "tes = map2 (\<lambda>a b. f32 (a + b)) (t0 l) (ontime l)"
  define fs where "fs = map (\<lambda>t. real_of_int \<lfloor>t\<rfloor>) (t0 l)"
  define dur where
    "dur = map2 (\<lambda>a b. to_int64 (f32 (a - b))) (map (\<lambda>t. real_of_int \<lceil>t\<rceil>) tes) fs"
  define n where "n = nat (sum_list dur)"
  define b0 where
    "b0 = \<lparr> xyz_b = replicate n (replicate (case l_xyz l of [] \<Rightarrow> 0 | r # _ \<Rightarrow> length r) (Fin 0)),
             phot_b = replicate n (Fin 0), frame_ix_b = replicate n 0,
             id_b = replicate n 0, c_b = 0 \<rparr>"
  have bd: "broadcast2 (\<lambda>a b. to_int64 (f32 (a - b))) (map (\<lambda>t. real_of_int \<lceil>t\<rceil>) tes) fs
              = Inr dur"
    using a by (simp add: broadcast2_def dur_def tes_def fs_def loose_aligned_def)
  from d obtain b where lp: "loop_emitters l tes fs dur [0..<length (l_xyz l)] b0 = Inr b"
    and e: "x = xyz_b b" "p = phot_b b" "f = frame_ix_b b" "i = id_b b"
    unfolding distribute_framewise_def te_aligned [OF a] b0_def n_def
    by (auto simp: bnd_def Let_def bd tes_def [symmetric] fs_def [symmetric]
        split: if_splits sum.splits)
  have bl: "buf_len b0 n" by (simp add: buf_len_def b0_def)
  have c0: "cols3 (xyz_b b0)"
  proof (cases "l_xyz l")
    case Nil
    then have "dur = []" using a by (simp add: dur_def tes_def fs_def loose_aligned_def)
    then show ?thesis by (simp add: b0_def n_def cols3_def)
  next
    case (Cons r rs)
    then have "length r = 3" using c by (simp add: cols3_def)
    then show ?thesis by (simp add: b0_def Cons cols3_def list_all_iff)
  qed
  from loop_emitters_inv [OF lp c bl c0] show ?thesis by (simp add: e buf_len_def)
qed

lemma return_emitterset_aligned:
  assumes a: "loose_aligned l" and c: "cols3 (l_xyz l)"
    and r: "return_emitterset l = Inr (ws, em)"
  shows "aligned em"
proof -
  from r obtain x p f i where d: "distribute_framewise l = Inr (x, p, f, i)"
    and e: "EmitterSet_init x p (map to_int32 f) (Some (map to_int32 i)) None None None None None
              True (l_xy_unit l) None = Inr (ws, em)"
    by (auto simp: return_emitterset_def bnd_def split: sum.splits)
  from distribute_aligned [OF d a c] have "cols3 x" by simp
  with e show ?thesis by (intro init_validated_aligned [OF e]) simp_all
qed

text \<open>
  C3. The claim: every container that construction with validation, \<open>get_subset\<close>,
  \<open>cat\<close>, \<open>sort_by_frame\<close>, \<open>convert_em\<close> or the lowering of a temporal distributor
  produces satisfies the alignment invariant, the container of no emitters included.
  What holds: a validated construction gives \<open>phot\<close>, \<open>frame_ix\<close>, \<open>id\<close>, \<open>bg\<close>,
  \<open>xyz_cr\<close>, \<open>phot_cr\<close> and \<open>bg_cr\<close> the leading dimension of \<open>xyz\<close>; it gives \<open>xyz\<close>
  three columns when \<open>xyz\<close> comes with two or three, and \<open>xyz_cr\<close> three columns when
  \<open>xyz_cr\<close> comes with three, or is left at its default and \<open>xyz\<close> comes with two or
  three. \<open>get_subset\<close>, \<open>cat\<close> and \<open>sort_by_frame\<close> return aligned containers on aligned
  ones; so does \<open>convert_em\<close> when it selects no columns or three; the lowering of a
  temporal distributor with one entry per emitter in every attribute and positions of
  three columns returns an aligned container; and a construction with no rows passes
  validation and gives the aligned container of length 0.
\<close>

theorem alignment_of_results:
  "(\<forall>xyz0 phot0 frame0 id0 prob0 bg0 xyz_cr0 phot_cr0 bg_cr0 u p ws em.
      EmitterSet_init xyz0 phot0 frame0 id0 prob0 bg0 xyz_cr0 phot_cr0 bg_cr0 True u p = Inr (ws, em)
      \<longrightarrow> checked_lengths em
          \<and> (cols3 xyz0 \<or> cols2 xyz0 \<longrightarrow> cols3 (xyz em))
          \<and> ((case xyz_cr0 of None \<Rightarrow> cols3 xyz0 \<or> cols2 xyz0 | Some c \<Rightarrow> cols3 c)
               \<longrightarrow> cols3 (xyz_cr em)))
   \<and> (\<forall>self ix em. aligned self \<and> get_subset self ix = Inr em \<longrightarrow> aligned em)
   \<and> (\<forall>ems remap step ws em.
        list_all aligned ems \<and> cat ems remap step = Inr (ws, em) \<longrightarrow> aligned em)
   \<and> (\<forall>torch_sort self.
        sort_contract torch_sort \<and> aligned self
        \<longrightarrow> (\<exists>em. sort_by_frame torch_sort self = Inr em \<and> aligned em))
   \<and> (\<forall>self factor shift axis frame_shift new_xy_unit em.
        aligned self \<and> (case axis of None \<Rightarrow> True | Some a \<Rightarrow> length a = 3)
        \<and> convert_em self factor shift axis frame_shift new_xy_unit = Inr em
        \<longrightarrow> aligned em)
   \<and> (\<forall>l ws em.
        loose_aligned l \<and> cols3 (l_xyz l) \<and> return_emitterset l = Inr (ws, em)
        \<longrightarrow> aligned em)
   \<and> (\<forall>phot0 frame0 id0 prob0 bg0 xyz_cr0 phot_cr0 bg_cr0 u p.
        \<exists>em. EmitterSet_init [] phot0 frame0 id0 prob0 bg0 xyz_cr0 phot_cr0 bg_cr0 True u p
               = Inr ([], em)
             \<and> len em = 0 \<and> aligned em)"
proof (intro conjI allI impI)
  fix xyz0 phot0 frame0 id0 prob0 bg0 xyz_cr0 phot_cr0 bg_cr0 u p ws em
  assume i: "EmitterSet_init xyz0 phot0 frame0 id0 prob0 bg0 xyz_cr0 phot_cr0 bg_cr0 True u p = Inr (ws, em)"
  show "checked_lengths em" using i by (rule init_validated_lengths)
  show "cols3 (xyz em)" if "cols3 xyz0 \<or> cols2 xyz0"
    using that by (rule init_validated_cols(1) [OF i])
  show "cols3 (xyz_cr em)"
    if "case xyz_cr0 of None \<Rightarrow> cols3 xyz0 \<or> cols2 xyz0 | Some c \<Rightarrow> cols3 c"
    using that by (rule init_validated_cols(2) [OF i])
next
  fix self ix em
  assume "aligned self \<and> get_subset self ix = Inr em"
  then show "aligned em" using get_subset_aligned by blast
next
  fix ems remap step ws em
  assume "list_all aligned ems \<and> cat ems remap step = Inr (ws, em)"
  then show "aligned em" using cat_aligned by blast
next
  fix torch_sort self
  assume "sort_contract torch_sort \<and> aligned self"
  then show "\<exists>em. sort_by_frame torch_sort self = Inr em \<and> aligned em"
    using sort_aligned(2,3) by blast
next
  fix self factor shift axis frame_shift new_xy_unit em
  assume "aligned self \<and> (case axis of None \<Rightarrow> True | Some a \<Rightarrow> length a = 3)
        \<and> convert_em self factor shift axis frame_shift new_xy_unit = Inr em"
  then show "aligned em" using convert_em_aligned by blast
next
  fix l ws em
  assume "loose_aligned l \<and> cols3 (l_xyz l) \<and> return_emitterset l = Inr (ws, em)"
  then show "aligned em" using return_emitterset_aligned by blast
next
  fix phot0 frame0 id0 prob0 bg0 xyz_cr0 phot_cr0 bg_cr0 u p
  show "\<exists>em. EmitterSet_init [] phot0 frame0 id0 prob0 bg0 xyz_cr0 phot_cr0 bg_cr0 True u p
               = Inr ([], em)
             \<and> len em = 0 \<and> aligned em"
    by (rule init_empty)
qed

theorem alignment_of_results_witness:
  "(\<exists>ws em. EmitterSet_init [[Fin 1, Fin 2], [Fin 4, Fin 5]] [Fin 10, Fin 20] [0, 5] None None None
              None None None True (Some ''px'') None = Inr (ws, em)
            \<and> xyz em = [[Fin 1, Fin 2, Fin 0], [Fin 4, Fin 5, Fin 0]]
            \<and> checked_lengths em \<and> cols3 (xyz em) \<and> cols3 (xyz_cr em))
   \<and> (\<exists>em. get_subset em_two (ListIx [1, 0, 1]) = Inr em \<and> len em = 3 \<and> aligned em)
   \<and> (\<exists>ws em. cat [em_two, em_one] None (Some 10) = Inr (ws, em)
             \<and> frame_ix em = [0, 5, 10] \<and> aligned em)
   \<and> (\<exists>em. sort_by_frame stable_sort em_rev = Inr em \<and> aligned em)
   \<and> (\<exists>em. convert_em em_two (Some [Fin 2, Fin 2]) None None (Some 1) (Some ''nm'') = Inr em
           \<and> xyz em = [[Fin 2, Fin 4, Fin 3], [Fin 8, Fin 10, Fin 6]] \<and> aligned em)
   \<and> (\<exists>ws em. return_emitterset loose_example = Inr (ws, em) \<and> len em = 3 \<and> aligned em)"
proof -
  note t = alignment_of_results
  have a2: "aligned em_two" and a1: "aligned em_one" and ar: "aligned em_rev"
    by (simp_all add: em_two_def em_one_def em_rev_def aligned_def cols3_def len_def)
  have 1: "EmitterSet_init [[Fin 1, Fin 2], [Fin 4, Fin 5]] [Fin 10, Fin 20] [0, 5] None None None
              None None None True (Some ''px'') None
           = Inr ([], \<lparr> xyz = [[Fin 1, Fin 2, Fin 0], [Fin 4, Fin 5, Fin 0]],
                phot = [Fin 10, Fin 20], frame_ix = [0, 5], id_em = [- 1, - 1],
                prob = [Fin 1, Fin 1], bg = [NaN, NaN],
                xyz_cr = [[NaN, NaN, NaN], [NaN, NaN, NaN]], phot_cr = [NaN, NaN],
                bg_cr = [NaN, NaN], xy_unit = Some ''px'', px_size = None, sorted_em = False \<rparr>)"
    by (simp add: init_eval)
  have c1: "(\<exists>ws em. EmitterSet_init [[Fin 1, Fin 2], [Fin 4, Fin 5]] [Fin 10, Fin 20] [0, 5] None None None
              None None None True (Some ''px'') None = Inr (ws, em)
            \<and> xyz em = [[Fin 1, Fin 2, Fin 0], [Fin 4, Fin 5, Fin 0]]
            \<and> checked_lengths em \<and> cols3 (xyz em) \<and> cols3 (xyz_cr em))"
    using t [THEN conjunct1, rule_format, OF 1] 1 by (simp add: cols2_def)
  have 2: "get_subset em_two (ListIx [1, 0, 1]) =
             Inr \<lparr> xyz = [[Fin 4, Fin 5, Fin 6], [Fin 1, Fin 2, Fin 3], [Fin 4, Fin 5, Fin 6]],
                   phot = [Fin 20, Fin 10, Fin 20], frame_ix = [5, 0, 5], id_em = [- 1, - 1, - 1],
                   prob = [Fin 1, Fin 1, Fin 1], bg = [NaN, NaN, NaN],
                   xyz_cr = [[NaN, NaN, NaN], [NaN, NaN, NaN], [NaN, NaN, NaN]],
                   phot_cr = [NaN, NaN, NaN], bg_cr = [NaN, NaN, NaN],
                   xy_unit = Some ''px'', px_size = None, sorted_em = False \<rparr>"
    by (simp add: get_subset_def single_element_def take_ix_def pick_row_def get_row_def em_two_def
        init_eval)
  have c2: "\<exists>em. get_subset em_two (ListIx [1, 0, 1]) = Inr em \<and> len em = 3 \<and> aligned em"
    using t [THEN conjunct2, THEN conjunct1, rule_format, OF conjI, OF a2 2] 2
    by (simp add: len_def)
  have 3: "cat [em_two, em_one] None (Some 10) =
      Inr ([], \<lparr> xyz = [[Fin 1, Fin 2, Fin 3], [Fin 4, Fin 5, Fin 6], [Fin 1, Fin 2, Fin 3]],
                   phot = [Fin 10, Fin 20, Fin 10], frame_ix = [0, 5, 10], id_em = [- 1, - 1, - 1],
                   prob = [Fin 1, Fin 1, Fin 1], bg = [NaN, NaN, Fin 5],
                   xyz_cr = [[NaN, NaN, NaN], [NaN, NaN, NaN], [Fin 1, Fin 1, Fin 1]],
                   phot_cr = [NaN, NaN, NaN], bg_cr = [NaN, NaN, NaN],
                   xy_unit = Some ''px'', px_size = None, sorted_em = False \<rparr>)"
    by (simp add: cat_def torch_cat_def torch_cat2_def is_mat_def get_row_def em_two_def em_one_def
        init_eval upt_rec [of 0] upt_rec [of 1] upt_rec [of 2])
  have c3: "\<exists>ws em. cat [em_two, em_one] None (Some 10) = Inr (ws, em)
             \<and> frame_ix em = [0, 5, 10] \<and> aligned em"
    using t [THEN conjunct2, THEN conjunct2, THEN conjunct1, rule_format, OF conjI, OF _ 3] a1 a2 3
    by simp
  have c4: "\<exists>em. sort_by_frame stable_sort em_rev = Inr em \<and> aligned em"
    using t [THEN conjunct2, THEN conjunct2, THEN conjunct2, THEN conjunct1, rule_format,
        OF conjI, OF stable_sort_contract ar] .
  have 5: "convert_em em_two (Some [Fin 2, Fin 2]) None None (Some 1) (Some ''nm'') =
      Inr (em_two \<lparr> xyz := [[Fin 2, Fin 4, Fin 3], [Fin 8, Fin 10, Fin 6]], frame_ix := [1, 6],
                     xy_unit := Some ''nm'' \<rparr>)"
    by (simp add: convert_em_def clone_def convert_coordinates_def broadcast2_def em_two_def
        init_eval)
  have c5: "\<exists>em. convert_em em_two (Some [Fin 2, Fin 2]) None None (Some 1) (Some ''nm'') = Inr em
           \<and> xyz em = [[Fin 2, Fin 4, Fin 3], [Fin 8, Fin 10, Fin 6]] \<and> aligned em"
    using t [THEN conjunct2, THEN conjunct2, THEN conjunct2, THEN conjunct2, THEN conjunct1,
        rule_format, OF conjI, OF a2 conjI, OF _ 5] 5
    by simp
  note la = loose_example_ok
  from return_emitterset_value [OF la] obtain ws where
    6: "return_emitterset loose_example = Inr (ws, lowered_set loose_example)" by blast
  have "len (lowered_set loose_example) = 3"
    by (simp add: lowered_set_def Let_def loose_example_rows len_def)
  then have c6: "\<exists>ws em. return_emitterset loose_example = Inr (ws, em) \<and> len em = 3 \<and> aligned em"
    using t [THEN conjunct2, THEN conjunct2, THEN conjunct2, THEN conjunct2, THEN conjunct2,
        THEN conjunct1, rule_format, OF conjI, OF la(1) conjI, OF la(5) 6] 6
    by blast
  show ?thesis using c1 c2 c3 c4 c5 c6 by blast
qed

text \<open>
  The claim as stated fails. \<open>convert_em\<close> with two columns selected returns positions
  of two columns. And no operation looks at the column count of \<open>xyz_cr\<close>: a construction
  with an \<open>xyz_cr\<close> of two columns passes validation.
\<close>

theorem alignment_not_kept:
  "aligned em_two
   \<and> convert_em em_two None None (Some [0, 1]) None None
       = Inr (em_two \<lparr> xyz := [[Fin 1, Fin 2], [Fin 4, Fin 5]] \<rparr>)
   \<and> \<not> aligned (em_two \<lparr> xyz := [[Fin 1, Fin 2], [Fin 4, Fin 5]] \<rparr>)
   \<and> EmitterSet_init [[Fin 1, Fin 2, Fin 3]] [Fin 10] [0] None None None (Some [[Fin 1, Fin 1]])
         None None True (Some ''px'') None = Inr ([], em_cr_narrow)
   \<and> \<not> aligned em_cr_narrow"
  by (simp add: em_cr_narrow_def em_two_def aligned_def cols3_def convert_em_def clone_def
      convert_coordinates_def pick_row_def get_row_def init_eval)

end
